theory Spec2Isabelle
  imports Main "HOL-Library.Sublist"
begin

section \<open>Values and component state of the receiver page\<close>

text \<open>
  The receiver page (\<^verbatim>\<open>src/app/page.tsx\<close>) is a React function component. Its six
  \<^verbatim>\<open>useState\<close> cells form the record \<open>state\<close>. Everything the handlers do beyond
  writing these cells (opening and closing \<^verbatim>\<open>EventSource\<close> objects, timers,
  intervals, toasts, console output, \<^verbatim>\<open>window.open\<close>) is recorded in the record
  \<open>world\<close>, which is passed through every handler.

  The payload of a stream event is whatever \<^verbatim>\<open>JSON.parse\<close> returns (type \<^verbatim>\<open>any\<close>
  in the source), so it is modelled as a JavaScript value. \<open>Undefined\<close> is the result of
  reading a property that is absent. Numbers are kept as the numeral that was written;
  the component never inspects them. The retry counter and the clock are natural
  numbers: the counter is only ever reset to 0 or incremented by 1, far below the range
  in which a JavaScript number stops being exact.
\<close>

datatype jsval =
    Undefined
  | Null
  | JBool bool
  | JNum string
  | JStr string
  | JArr "jsval list"
  | JObj "(string \<times> jsval) list"

datatype exn = SyntaxError | TypeError | InvalidChild

text \<open>
  \<open>field v k\<close> is the property read \<^verbatim>\<open>v.k\<close> for the keys the component reads
  (\<^verbatim>\<open>type\<close>, \<^verbatim>\<open>content\<close>, \<^verbatim>\<open>contentType\<close>), none of which is inherited from a
  prototype. An object literal with a repeated key keeps the last value. Reading a
  property of \<^verbatim>\<open>null\<close> throws; the caller checks for that before using \<open>field\<close>.
\<close>

fun field :: "jsval \<Rightarrow> string \<Rightarrow> jsval" where
  "field (JObj kvs) k = (case map_of (rev kvs) k of Some v \<Rightarrow> v | None \<Rightarrow> Undefined)"
| "field v k = Undefined"

record item =
  item_id :: string
  content :: jsval
  item_type :: jsval
  timestamp :: nat

record state =
  sessionId :: string
  qrCodeUrl :: string
  receivedContent :: "item list"
  isConnected :: bool
  isGenerating :: bool
  connectionRetries :: nat

datatype description = Plain string | NewReceived jsval

record toast =
  title :: string
  description :: description
  destructive :: bool

datatype log = Msg string | Reconnecting nat

text \<open>
  One run of the stream effect (lines 75-143) creates a closure: the values of
  \<^verbatim>\<open>sessionId\<close> and \<^verbatim>\<open>connectionRetries\<close> of the render it belongs to, and the two
  mutable variables \<^verbatim>\<open>eventSource\<close> and \<^verbatim>\<open>reconnectTimeout\<close>. Closures,
  \<^verbatim>\<open>EventSource\<close> objects, timers and intervals live in lists; a handle is an index.
\<close>

record closure =
  c_sessionId :: string
  c_connectionRetries :: nat
  eventSource :: "nat option"
  reconnectTimeout :: "nat option"

record source =
  es_url :: string
  es_closure :: nat
  es_closed :: bool

record timer =
  t_delay :: nat
  t_due :: nat
  t_closure :: nat
  t_pending :: bool

record interval =
  iv_period :: nat
  iv_due :: nat
  iv_sessionId :: string
  iv_active :: bool

record world =
  st :: state
  now :: nat
  closures :: "closure list"
  sources :: "source list"
  timers :: "timer list"
  current :: "nat option"
  deps :: "string \<times> nat"
  intervals :: "interval list"
  currentInterval :: "nat option"
  refreshDeps :: string
  toasts :: "toast list"
  logs :: "log list"
  windows :: "(string \<times> string) list"

section \<open>State setters and output primitives\<close>

definition setSessionId :: "string \<Rightarrow> world \<Rightarrow> world" where
  "setSessionId v w = w\<lparr>st := (st w)\<lparr>sessionId := v\<rparr>\<rparr>"

definition setQrCodeUrl :: "string \<Rightarrow> world \<Rightarrow> world" where
  "setQrCodeUrl v w = w\<lparr>st := (st w)\<lparr>qrCodeUrl := v\<rparr>\<rparr>"

definition setReceivedContent :: "(item list \<Rightarrow> item list) \<Rightarrow> world \<Rightarrow> world" where
  "setReceivedContent f w = w\<lparr>st := (st w)\<lparr>receivedContent := f (receivedContent (st w))\<rparr>\<rparr>"

definition setIsConnected :: "bool \<Rightarrow> world \<Rightarrow> world" where
  "setIsConnected v w = w\<lparr>st := (st w)\<lparr>isConnected := v\<rparr>\<rparr>"

definition setIsGenerating :: "bool \<Rightarrow> world \<Rightarrow> world" where
  "setIsGenerating v w = w\<lparr>st := (st w)\<lparr>isGenerating := v\<rparr>\<rparr>"

definition setConnectionRetries :: "(nat \<Rightarrow> nat) \<Rightarrow> world \<Rightarrow> world" where
  "setConnectionRetries f w = w\<lparr>st := (st w)\<lparr>connectionRetries := f (connectionRetries (st w))\<rparr>\<rparr>"

definition show_toast :: "toast \<Rightarrow> world \<Rightarrow> world" where
  "show_toast t w = w\<lparr>toasts := toasts w @ [t]\<rparr>"

definition console_log :: "log \<Rightarrow> world \<Rightarrow> world" where
  "console_log l w = w\<lparr>logs := logs w @ [l]\<rparr>"

definition window_open :: "string \<Rightarrow> string \<Rightarrow> world \<Rightarrow> world" where
  "window_open u target w = w\<lparr>windows := windows w @ [(u, target)]\<rparr>"

definition close_source :: "nat \<Rightarrow> world \<Rightarrow> world" where
  "close_source h w = w\<lparr>sources := (sources w)[h := (sources w ! h)\<lparr>es_closed := True\<rparr>]\<rparr>"

definition clearTimeout :: "nat \<Rightarrow> world \<Rightarrow> world" where
  "clearTimeout t w = w\<lparr>timers := (timers w)[t := (timers w ! t)\<lparr>t_pending := False\<rparr>]\<rparr>"

definition clearInterval :: "nat \<Rightarrow> world \<Rightarrow> world" where
  "clearInterval i w = w\<lparr>intervals := (intervals w)[i := (intervals w ! i)\<lparr>iv_active := False\<rparr>]\<rparr>"

section \<open>Session handlers (lines 26-69)\<close>

text \<open>
  An asynchronous handler is modelled by its complete run; what the network answers is a
  parameter. \<open>GenFailed\<close> stands for a rejected \<^verbatim>\<open>fetch\<close> or \<^verbatim>\<open>response.json()\<close>,
  \<open>GenData sid qr\<close> for a body with \<^verbatim>\<open>sessionId = sid\<close> and \<^verbatim>\<open>qrCode = qr\<close>.
  For the validation request, \<open>Response ok\<close> carries \<^verbatim>\<open>response.ok\<close>. Every state write
  of these handlers sets an absolute value, so events that arrive while a request is in
  flight do not change what is written.
\<close>

datatype gen_result = GenFailed | GenData string string

datatype fetch_result = FetchFailed | Response bool

definition generateSession :: "gen_result \<Rightarrow> world \<Rightarrow> world" where
  "generateSession r w =
     (let w1 = setIsGenerating True w;
          w2 = (case r of
                  GenData sid qr \<Rightarrow>
                    setConnectionRetries (\<lambda>_. 0)
                      (setReceivedContent (\<lambda>_. [])
                        (setQrCodeUrl qr (setSessionId sid w1)))
                | GenFailed \<Rightarrow>
                    show_toast \<lparr>title = ''Error'',
                                description = Plain ''Failed to generate session'',
                                destructive = True\<rparr> w1)
      in setIsGenerating False w2)"

definition refreshSession :: "string \<Rightarrow> fetch_result \<Rightarrow> gen_result \<Rightarrow> world \<Rightarrow> world" where
  "refreshSession sid v g w =
     (if sid = [] then w
      else case v of
             Response ok \<Rightarrow>
               if \<not> ok
               then show_toast \<lparr>title = ''Session Refreshed'',
                                description = Plain ''Your session was refreshed due to expiration'',
                                destructive = False\<rparr> (generateSession g w)
               else w
           | FetchFailed \<Rightarrow> generateSession g w)"

definition clearReceivedContent :: "world \<Rightarrow> world" where
  "clearReceivedContent w =
     show_toast \<lparr>title = ''Cleared'',
                 description = Plain ''Received content cleared'',
                 destructive = False\<rparr> (setReceivedContent (\<lambda>_. []) w)"

definition openLink :: "string \<Rightarrow> world \<Rightarrow> world" where
  "openLink u w =
     (let fullUrl = (if prefix ''http'' u then u else ''https://'' @ u)
      in window_open fullUrl ''_blank'' w)"

text \<open>
  The Open button (lines 382-392) exists only for an item whose \<^verbatim>\<open>type\<close> is
  \<^verbatim>\<open>"link"\<close>; it calls \<^verbatim>\<open>openLink(item.content)\<close>. \<^verbatim>\<open>url.startsWith\<close> throws a
  \<^verbatim>\<open>TypeError\<close> for a content that is not a string.
\<close>

definition openButton :: "item \<Rightarrow> world \<Rightarrow> (exn + world) option" where
  "openButton it w =
     (if item_type it = JStr ''link''
      then Some (case content it of JStr u \<Rightarrow> Inr (openLink u w) | _ \<Rightarrow> Inl TypeError)
      else None)"

section \<open>The stream effect (lines 75-143)\<close>

definition connectToSession :: "nat \<Rightarrow> world \<Rightarrow> world" where
  "connectToSession c w =
     (let w1 = (case eventSource (closures w ! c) of
                  Some h \<Rightarrow> close_source h w
                | None \<Rightarrow> w);
          h' = length (sources w1)
      in w1\<lparr>sources := sources w1 @
                [\<lparr>es_url = ''/api/listen/'' @ c_sessionId (closures w1 ! c),
                  es_closure = c, es_closed = False\<rparr>],
             closures := (closures w1)[c := (closures w1 ! c)\<lparr>eventSource := Some h'\<rparr>]\<rparr>)"

definition onopen :: "world \<Rightarrow> world" where
  "onopen w =
     setConnectionRetries (\<lambda>_. 0)
       (setIsConnected True (console_log (Msg ''SSE connection opened'') w))"

text \<open>
  \<open>substr start len s\<close> is \<^verbatim>\<open>s.substr(start, len)\<close> for a start that is not negative.
  \<open>base36\<close> says that a string is made of the digits \<^verbatim>\<open>toString(36)\<close> writes.
\<close>

definition substr :: "nat \<Rightarrow> nat \<Rightarrow> string \<Rightarrow> string" where
  "substr start len s = take len (drop start s)"

definition base36 :: "string \<Rightarrow> bool" where
  "base36 s = list_all (\<lambda>c. c \<in> set ''0123456789abcdefghijklmnopqrstuvwxyz'') s"

text \<open>
  \<open>onmessage\<close> receives the result of \<^verbatim>\<open>JSON.parse(event.data)\<close> and, as \<open>rnd\<close>, the
  string \<^verbatim>\<open>Math.random().toString(36)\<close> (a floating-point conversion, taken as an input);
  it reads \<^verbatim>\<open>Date.now()\<close> from the clock of the world. The emoji of the toast title is
  left out.
\<close>

definition onmessage :: "exn + jsval \<Rightarrow> string \<Rightarrow> world \<Rightarrow> exn + world" where
  "onmessage parsed rnd w =
     (case parsed of
        Inl e \<Rightarrow> Inl e
      | Inr data \<Rightarrow>
          if data = Null \<or> data = Undefined then Inl TypeError
          else if field data ''type'' = JStr ''content'' then
            (let newItem = \<lparr>item_id = substr 2 9 rnd,
                            content = field data ''content'',
                            item_type = field data ''contentType'',
                            timestamp = now w\<rparr>
             in Inr (show_toast \<lparr>title = ''Content Received!'',
                                 description = NewReceived (field data ''contentType''),
                                 destructive = False\<rparr>
                       (setReceivedContent (\<lambda>prev. newItem # prev) w)))
          else if field data ''type'' = JStr ''heartbeat'' then
            Inr (console_log (Msg ''Heartbeat received'') w)
          else Inr w)"

text \<open>
  \<open>onerror c\<close> is the error handler installed by closure \<open>c\<close>: the retry counter it reads
  is the one captured by \<open>c\<close>. \<open>reconnect c\<close> is the callback given to \<^verbatim>\<open>setTimeout\<close>.
\<close>

definition onerror :: "nat \<Rightarrow> world \<Rightarrow> world" where
  "onerror c w =
     (let w1 = setIsConnected False (console_log (Msg ''SSE connection error:'') w);
          retries = c_connectionRetries (closures w1 ! c)
      in if retries < 5 then
           (let delay = min (1000 * 2 ^ retries) 30000;
                w2 = console_log (Reconnecting delay) w1;
                t = length (timers w2)
            in w2\<lparr>timers := timers w2 @
                     [\<lparr>t_delay = delay, t_due = now w2 + delay, t_closure = c,
                       t_pending = True\<rparr>],
                   closures := (closures w2)[c := (closures w2 ! c)\<lparr>reconnectTimeout := Some t\<rparr>]\<rparr>)
         else w1)"

definition reconnect :: "nat \<Rightarrow> world \<Rightarrow> world" where
  "reconnect c w = connectToSession c (setConnectionRetries (\<lambda>prev. prev + 1) w)"

definition cleanup :: "nat \<Rightarrow> world \<Rightarrow> world" where
  "cleanup c w =
     (let w1 = (case eventSource (closures w ! c) of
                  Some h \<Rightarrow> close_source h w
                | None \<Rightarrow> w)
      in case reconnectTimeout (closures w1 ! c) of
           Some t \<Rightarrow> clearTimeout t w1
         | None \<Rightarrow> w1)"

definition sse_effect :: "world \<Rightarrow> world" where
  "sse_effect w =
     (if sessionId (st w) = [] then w\<lparr>current := None\<rparr>
      else
        (let c = length (closures w)
         in connectToSession c
              (w\<lparr>closures := closures w @
                    [\<lparr>c_sessionId = sessionId (st w),
                      c_connectionRetries = connectionRetries (st w),
                      eventSource = None, reconnectTimeout = None\<rparr>],
                  current := Some c\<rparr>)))"

section \<open>The refresh effect (lines 145-150)\<close>

definition refresh_effect :: "world \<Rightarrow> world" where
  "refresh_effect w =
     (if sessionId (st w) = [] then w\<lparr>currentInterval := None\<rparr>
      else w\<lparr>intervals := intervals w @
                [\<lparr>iv_period = 30 * 60 * 1000, iv_due = now w + 30 * 60 * 1000,
                  iv_sessionId = sessionId (st w), iv_active = True\<rparr>],
              currentInterval := Some (length (intervals w))\<rparr>)"

section \<open>Rendering, events and runs\<close>

text \<open>
  After a handler has run, React renders again and re-runs an effect whose dependencies
  changed: first the cleanup function the previous run returned, then the effect body.
  The dependencies of the stream effect are \<^verbatim>\<open>sessionId\<close> and \<^verbatim>\<open>connectionRetries\<close>
  (\<^verbatim>\<open>toast\<close> keeps its identity), that of the refresh effect is \<^verbatim>\<open>sessionId\<close>.
  State writes made in one handler are applied together before the next render.
\<close>

definition rerun_stream_effect :: "world \<Rightarrow> world" where
  "rerun_stream_effect w =
     (let d = (sessionId (st w), connectionRetries (st w))
      in if deps w = d then w
         else sse_effect
                ((case current w of Some c \<Rightarrow> cleanup c w | None \<Rightarrow> w)\<lparr>deps := d\<rparr>))"

definition rerun_refresh_effect :: "world \<Rightarrow> world" where
  "rerun_refresh_effect w =
     (if refreshDeps w = sessionId (st w) then w
      else refresh_effect
             ((case currentInterval w of Some i \<Rightarrow> clearInterval i w | None \<Rightarrow> w)
                \<lparr>refreshDeps := sessionId (st w)\<rparr>))"

definition render :: "world \<Rightarrow> world" where
  "render w = rerun_refresh_effect (rerun_stream_effect w)"

text \<open>
  Events are what the user, the network and the clock do. A stream event reaches the
  handlers of its \<^verbatim>\<open>EventSource\<close> only while that object has not been closed; a timer
  fires once, not before its delay has elapsed and not after \<^verbatim>\<open>clearTimeout\<close>; the two
  session buttons are disabled while \<^verbatim>\<open>isGenerating\<close>; the clear button exists only
  for a non-empty list. An exception thrown by a handler leaves the state as it was.
  The call of \<^verbatim>\<open>generateSession\<close> made by the mount effect (lines 71-73) is the event
  \<open>NewSessionClick\<close> as well. \<^verbatim>\<open>copyToClipboard\<close> (lines 152-166) writes no state and
  opens nothing; it is left out.
\<close>

datatype event =
    NewSessionClick gen_result
  | RefreshClick fetch_result gen_result
  | IntervalTick nat fetch_result gen_result
  | ClearClick
  | OpenClick nat
  | StreamOpen nat
  | StreamMessage nat "exn + jsval" string
  | StreamError nat
  | TimerFire nat
  | Advance nat

definition live :: "nat \<Rightarrow> world \<Rightarrow> bool" where
  "live h w \<longleftrightarrow> h < length (sources w) \<and> \<not> es_closed (sources w ! h)"

fun handle :: "event \<Rightarrow> world \<Rightarrow> world" where
  "handle (NewSessionClick g) w =
     (if isGenerating (st w) then w else generateSession g w)"
| "handle (RefreshClick v g) w =
     (if isGenerating (st w) then w else refreshSession (sessionId (st w)) v g w)"
| "handle (IntervalTick i v g) w =
     (if i < length (intervals w) \<and> iv_active (intervals w ! i) \<and> iv_due (intervals w ! i) \<le> now w
      then refreshSession (iv_sessionId (intervals w ! i)) v g
             (w\<lparr>intervals := (intervals w)
                   [i := (intervals w ! i)\<lparr>iv_due := iv_due (intervals w ! i) + iv_period (intervals w ! i)\<rparr>]\<rparr>)
      else w)"
| "handle ClearClick w =
     (if receivedContent (st w) = [] then w else clearReceivedContent w)"
| "handle (OpenClick k) w =
     (if k < length (receivedContent (st w))
      then (case openButton (receivedContent (st w) ! k) w of
              Some (Inr w') \<Rightarrow> w'
            | _ \<Rightarrow> w)
      else w)"
| "handle (StreamOpen h) w = (if live h w then onopen w else w)"
| "handle (StreamMessage h parsed rnd) w =
     (if live h w
      then (case onmessage parsed rnd w of Inr w' \<Rightarrow> w' | Inl e \<Rightarrow> w)
      else w)"
| "handle (StreamError h) w =
     (if live h w then onerror (es_closure (sources w ! h)) w else w)"
| "handle (TimerFire t) w =
     (if t < length (timers w) \<and> t_pending (timers w ! t) \<and> t_due (timers w ! t) \<le> now w
      then reconnect (t_closure (timers w ! t))
             (w\<lparr>timers := (timers w)[t := (timers w ! t)\<lparr>t_pending := False\<rparr>]\<rparr>)
      else w)"
| "handle (Advance d) w = w\<lparr>now := now w + d\<rparr>"

definition step :: "event \<Rightarrow> world \<Rightarrow> world" where
  "step e w = render (handle e w)"

fun run :: "event list \<Rightarrow> world \<Rightarrow> world" where
  "run [] w = w"
| "run (e # es) w = run es (step e w)"

text \<open>The component as mounted at time \<open>t0\<close>: the initial values of lines 11-23.\<close>

definition mount :: "nat \<Rightarrow> world" where
  "mount t0 =
     \<lparr>st = \<lparr>sessionId = [], qrCodeUrl = [], receivedContent = [], isConnected = False,
            isGenerating = False, connectionRetries = 0\<rparr>,
      now = t0, closures = [], sources = [], timers = [], current = None, deps = ([], 0),
      intervals = [], currentInterval = None, refreshDeps = [], toasts = [], logs = [],
      windows = []\<rparr>"

text \<open>The stream the current run of the stream effect holds in \<^verbatim>\<open>eventSource\<close>.\<close>

definition current_stream :: "world \<Rightarrow> nat option" where
  "current_stream w =
     (case current w of None \<Rightarrow> None | Some c \<Rightarrow> eventSource (closures w ! c))"

section \<open>What the page displays (lines 173-441)\<close>

text \<open>
  Rendering evaluates the JSX. The only expressions in it that can throw are in the
  card of a received item (lines 334-395): line 352 calls
  \<^verbatim>\<open>item.content.includes("\n")\<close>, which exists on a string and on an array and throws a
  \<^verbatim>\<open>TypeError\<close> on every other value (also on an object, whose \<^verbatim>\<open>includes\<close>, if it has
  one, came from JSON and is no function); line 368 gives \<^verbatim>\<open>item.content\<close> to React as
  a child, and React refuses an object, also inside an array. \<^verbatim>\<open>receivedContent.map\<close>
  builds all cards before React looks at their children, so a missing \<^verbatim>\<open>includes\<close> is
  met first. \<open>displayed w\<close> is the list of cards shown, one per item in list order and
  keyed by the item's \<^verbatim>\<open>id\<close>, or the exception the render throws.
\<close>

fun has_includes :: "jsval \<Rightarrow> bool" where
  "has_includes (JStr s) = True"
| "has_includes (JArr xs) = True"
| "has_includes v = False"

fun valid_child :: "jsval \<Rightarrow> bool" where
  "valid_child (JObj kvs) = False"
| "valid_child (JArr xs) = list_all valid_child xs"
| "valid_child v = True"

fun is_string :: "jsval \<Rightarrow> bool" where
  "is_string (JStr s) = True"
| "is_string v = False"

definition displayed :: "world \<Rightarrow> exn + item list" where
  "displayed w =
     (let items = receivedContent (st w)
      in if \<not> list_all (\<lambda>it. has_includes (content it)) items then Inl TypeError
         else if \<not> list_all (\<lambda>it. valid_child (content it)) items then Inl InvalidChild
         else Inr items)"

definition renders :: "world \<Rightarrow> bool" where
  "renders w = (case displayed w of Inr cards \<Rightarrow> True | Inl e \<Rightarrow> False)"

text \<open>
  The page has no error boundary of its own: when its render throws, React unmounts it.
  The cleanup functions of the two effects run (lines 135-142 and 149): the stream of the
  current run is closed, its last timer and the interval are cleared, and nothing is
  displayed any more. \<open>step\<close> above is a handler followed by the effects of a render that
  does not throw; \<open>page_step\<close> is the whole reaction of the page to an event, with the
  render of the JSX in between. An unmounted page is not followed further.
\<close>

definition unmount :: "world \<Rightarrow> world" where
  "unmount w =
     (let w1 = (case current w of Some c \<Rightarrow> cleanup c w | None \<Rightarrow> w);
          w2 = (case currentInterval w1 of Some i \<Rightarrow> clearInterval i w1 | None \<Rightarrow> w1)
      in w2\<lparr>current := None, currentInterval := None\<rparr>)"

datatype page = Mounted world | Unmounted world

fun page_step :: "event \<Rightarrow> page \<Rightarrow> page" where
  "page_step e (Mounted w) =
     (let w' = handle e w
      in if renders w' then Mounted (render w') else Unmounted (unmount w'))"
| "page_step e (Unmounted w) = Unmounted w"

fun page_run :: "event list \<Rightarrow> page \<Rightarrow> page" where
  "page_run [] p = p"
| "page_run (e # es) p = page_run es (page_step e p)"

fun is_mounted :: "page \<Rightarrow> bool" where
  "is_mounted (Mounted w) = True"
| "is_mounted (Unmounted w) = False"

fun page_world :: "page \<Rightarrow> world" where
  "page_world (Mounted w) = w"
| "page_world (Unmounted w) = w"

text \<open>Delivery of a sequence of parsed payloads, each with its random id, on stream \<open>h\<close>.\<close>

definition deliver :: "nat \<Rightarrow> (jsval \<times> string) list \<Rightarrow> event list" where
  "deliver h evs = map (\<lambda>(d, rnd). StreamMessage h (Inr d) rnd) evs"

section \<open>Invariants of every run\<close>

text \<open>
  \<open>wf_closures\<close>: the \<^verbatim>\<open>eventSource\<close> variable of a closure refers to a stream that this
  closure created, and every stream and timer belongs to an existing closure; a stream
  listens on the session its closure captured. \<open>wf_current\<close>: the current run of the
  stream effect captured the values recorded as its dependencies and holds an open
  stream. \<open>wf_interval\<close>: the only active interval is the one of the current run of the
  refresh effect. \<open>synced\<close>: both effects have run for the state that is displayed.
\<close>

definition wf_closures :: "world \<Rightarrow> bool" where
  "wf_closures w \<longleftrightarrow>
     (\<forall>c<length (closures w). \<forall>h. eventSource (closures w ! c) = Some h \<longrightarrow>
         h < length (sources w) \<and> es_closure (sources w ! h) = c) \<and>
     (\<forall>h<length (sources w).
         es_closure (sources w ! h) < length (closures w) \<and>
         es_url (sources w ! h) =
           ''/api/listen/'' @ c_sessionId (closures w ! es_closure (sources w ! h))) \<and>
     (\<forall>t<length (timers w). t_closure (timers w ! t) < length (closures w))"

definition wf_current :: "world \<Rightarrow> bool" where
  "wf_current w \<longleftrightarrow>
     (case current w of
        None \<Rightarrow> fst (deps w) = []
      | Some c \<Rightarrow>
          c < length (closures w) \<and> c_sessionId (closures w ! c) = fst (deps w) \<and>
          c_connectionRetries (closures w ! c) = snd (deps w) \<and> fst (deps w) \<noteq> [] \<and>
          (\<exists>h. eventSource (closures w ! c) = Some h \<and> \<not> es_closed (sources w ! h)))"

definition wf_interval :: "world \<Rightarrow> bool" where
  "wf_interval w \<longleftrightarrow>
     (case currentInterval w of
        None \<Rightarrow> refreshDeps w = []
      | Some i \<Rightarrow>
          i < length (intervals w) \<and> iv_active (intervals w ! i) \<and>
          iv_period (intervals w ! i) = 1800000 \<and>
          iv_sessionId (intervals w ! i) = refreshDeps w \<and> refreshDeps w \<noteq> []) \<and>
     (\<forall>i<length (intervals w). iv_active (intervals w ! i) \<longrightarrow> currentInterval w = Some i)"

definition wf :: "world \<Rightarrow> bool" where
  "wf w \<longleftrightarrow> wf_closures w \<and> wf_current w \<and> wf_interval w \<and> \<not> isGenerating (st w)"

definition synced :: "world \<Rightarrow> bool" where
  "synced w \<longleftrightarrow> deps w = (sessionId (st w), connectionRetries (st w)) \<and>
                 refreshDeps w = sessionId (st w)"

definition same_env :: "world \<Rightarrow> world \<Rightarrow> bool" where
  "same_env w w' \<longleftrightarrow>
     closures w' = closures w \<and> sources w' = sources w \<and> timers w' = timers w \<and>
     current w' = current w \<and> deps w' = deps w \<and> intervals w' = intervals w \<and>
     currentInterval w' = currentInterval w \<and> refreshDeps w' = refreshDeps w \<and>
     now w' = now w"

section \<open>Concrete runs used as examples\<close>

text \<open>The page after its first session arrived: one closure, one open stream.\<close>

definition connected_world :: world where
  "connected_world = run [NewSessionClick (GenData ''s'' ''qr'')] (mount 0)"

text \<open>The same page after one text item was received.\<close>

definition one_item_world :: world where
  "one_item_world =
     run [NewSessionClick (GenData ''s'' ''qr''),
          StreamMessage 0 (Inr (JObj [(''type'', JStr ''content''), (''contentType'', JStr ''text''),
                                      (''content'', JStr ''first'')])) ''0.a1b2c3d4e7k''] (mount 0)"

text \<open>
  A server that stays unreachable. Each error is followed by its reconnect timer, after
  1, 2, 4, 8 and 16 seconds; the fifth timer brings the counter to 5, and the error on
  the stream opened then schedules nothing. No timer is left pending.
\<close>

definition retries_exhausted :: "event list" where
  "retries_exhausted =
     [NewSessionClick (GenData ''s'' ''qr''),
      StreamError 0, Advance 1000, TimerFire 0,
      StreamError 2, Advance 2000, TimerFire 1,
      StreamError 4, Advance 4000, TimerFire 2,
      StreamError 6, Advance 8000, TimerFire 3,
      StreamError 8, Advance 16000, TimerFire 4,
      StreamError 10]"

text \<open>
  The same, except that with the counter at 4 (delay 16 s) the browser's own retry of
  stream 8 fails twice more, 3 seconds apart, before the first of the three timers
  fires.
\<close>

definition retries_exhausted_lost_timer :: "event list" where
  "retries_exhausted_lost_timer =
     [NewSessionClick (GenData ''s'' ''qr''),
      StreamError 0, Advance 1000, TimerFire 0,
      StreamError 2, Advance 2000, TimerFire 1,
      StreamError 4, Advance 4000, TimerFire 2,
      StreamError 6, Advance 8000, TimerFire 3,
      StreamError 8, Advance 3000, StreamError 8, Advance 3000, StreamError 8,
      Advance 10000, TimerFire 4,
      StreamError 10]"

section \<open>The invariants hold in every run\<close>

lemmas setter_defs = setSessionId_def setQrCodeUrl_def setReceivedContent_def setIsConnected_def
  setIsGenerating_def setConnectionRetries_def show_toast_def console_log_def window_open_def

lemmas eval_defs = step_def render_def rerun_stream_effect_def rerun_refresh_effect_def
  sse_effect_def refresh_effect_def cleanup_def connectToSession_def onerror_def reconnect_def
  onopen_def onmessage_def close_source_def clearTimeout_def clearInterval_def live_def
  generateSession_def refreshSession_def clearReceivedContent_def setter_defs Let_def mount_def

lemma wf_mount: "wf (mount t0)" "synced (mount t0)"
  by (simp_all add: wf_def wf_closures_def wf_current_def wf_interval_def synced_def mount_def)

lemma same_env_generateSession: "same_env w (generateSession g w)"
  by (simp add: same_env_def generateSession_def setter_defs Let_def split: gen_result.splits)

lemma gen_not_generating: "\<not> isGenerating (st (generateSession g w))"
  by (simp add: generateSession_def setter_defs Let_def split: gen_result.splits)

lemma same_env_refreshSession: "same_env w (refreshSession sid v g w)"
  using same_env_generateSession[of w g]
  by (simp add: same_env_def refreshSession_def setter_defs split: fetch_result.splits)

lemma same_env_wf:
  "same_env w w' \<Longrightarrow> wf_closures w \<Longrightarrow> wf_closures w'"
  "same_env w w' \<Longrightarrow> wf_current w \<Longrightarrow> wf_current w'"
  "same_env w w' \<Longrightarrow> wf_interval w \<Longrightarrow> wf_interval w'"
  by (auto simp add: same_env_def wf_closures_def wf_current_def wf_interval_def split: option.splits)

lemma connect_closures:
  assumes "wf_closures w" "c < length (closures w)"
  shows "wf_closures (connectToSession c w)"
  using assms unfolding wf_closures_def connectToSession_def close_source_def Let_def
  by (auto simp: nth_append nth_list_update split: option.splits)

lemma connect_frame:
  "current (connectToSession c w) = current w"
  "deps (connectToSession c w) = deps w"
  "st (connectToSession c w) = st w"
  "timers (connectToSession c w) = timers w"
  "now (connectToSession c w) = now w"
  "intervals (connectToSession c w) = intervals w"
  "currentInterval (connectToSession c w) = currentInterval w"
  "refreshDeps (connectToSession c w) = refreshDeps w"
  "length (closures (connectToSession c w)) = length (closures w)"
  "length (sources (connectToSession c w)) = Suc (length (sources w))"
  by (simp_all add: connectToSession_def close_source_def Let_def split: option.splits)

lemma connect_closures_nth:
  "c < length (closures w) \<Longrightarrow>
   closures (connectToSession c w) ! c = (closures w ! c)\<lparr>eventSource := Some (length (sources w))\<rparr>"
  "c' \<noteq> c \<Longrightarrow> closures (connectToSession c w) ! c' = closures w ! c'"
  by (simp_all add: connectToSession_def close_source_def Let_def split: option.splits)

lemma connect_sources_nth:
  "sources (connectToSession c w) ! length (sources w) =
     \<lparr>es_url = ''/api/listen/'' @ c_sessionId (closures w ! c), es_closure = c, es_closed = False\<rparr>"
  "h < length (sources w) \<Longrightarrow> eventSource (closures w ! c) \<noteq> Some h \<Longrightarrow>
     sources (connectToSession c w) ! h = sources w ! h"
  by (auto simp add: connectToSession_def close_source_def Let_def nth_append split: option.splits)

lemma connect_current:
  assumes "wf_closures w" "wf_current w" "c < length (closures w)"
  shows "wf_current (connectToSession c w)"
proof (cases "current w")
  case None
  with assms show ?thesis by (simp add: wf_current_def connect_frame)
next
  case (Some cur)
  with assms(2) obtain h where cur: "cur < length (closures w)"
      "c_sessionId (closures w ! cur) = fst (deps w)"
      "c_connectionRetries (closures w ! cur) = snd (deps w)" "fst (deps w) \<noteq> []"
      "eventSource (closures w ! cur) = Some h" "\<not> es_closed (sources w ! h)"
    by (auto simp: wf_current_def)
  show ?thesis
  proof (cases "cur = c")
    case True
    with Some cur assms(3) show ?thesis
      by (simp add: wf_current_def connect_frame connect_closures_nth connect_sources_nth)
  next
    case False
    from assms(1) cur have h: "h < length (sources w)" "es_closure (sources w ! h) = cur"
      by (auto simp: wf_closures_def)
    have "eventSource (closures w ! c) \<noteq> Some h"
    proof
      assume "eventSource (closures w ! c) = Some h"
      with assms(1,3) have "es_closure (sources w ! h) = c" by (auto simp: wf_closures_def)
      with h False show False by simp
    qed
    with h have "sources (connectToSession c w) ! h = sources w ! h"
      by (simp add: connect_sources_nth)
    with Some cur False show ?thesis
      by (simp add: wf_current_def connect_frame connect_closures_nth)
  qed
qed

lemma onerror_closures:
  assumes "wf_closures w" "c < length (closures w)"
  shows "wf_closures (onerror c w)"
  using assms unfolding wf_closures_def onerror_def Let_def setter_defs
  by (auto simp: nth_append nth_list_update split: option.splits)

lemma onerror_current:
  assumes "wf_current w" "c < length (closures w)"
  shows "wf_current (onerror c w)"
  using assms unfolding wf_current_def onerror_def Let_def setter_defs
  by (auto simp: nth_append nth_list_update split: option.splits)


lemma cleanup_frame:
  "current (cleanup c w) = current w"
  "deps (cleanup c w) = deps w"
  "st (cleanup c w) = st w"
  "closures (cleanup c w) = closures w"
  "now (cleanup c w) = now w"
  "intervals (cleanup c w) = intervals w"
  "currentInterval (cleanup c w) = currentInterval w"
  "refreshDeps (cleanup c w) = refreshDeps w"
  by (simp_all add: cleanup_def close_source_def clearTimeout_def Let_def split: option.splits)

lemma es_closure_close:
  "es_closure (xs[i := (xs ! i)\<lparr>es_closed := b\<rparr>] ! j) = es_closure (xs ! j)"
  "es_url (xs[i := (xs ! i)\<lparr>es_closed := b\<rparr>] ! j) = es_url (xs ! j)"
  by (cases "i < length xs"; auto simp: nth_list_update list_update_beyond)+

lemma t_closure_clear:
  "t_closure (xs[i := (xs ! i)\<lparr>t_pending := b\<rparr>] ! j) = t_closure (xs ! j)"
  by (cases "i < length xs") (auto simp: nth_list_update list_update_beyond)

lemma cleanup_closures:
  assumes "wf_closures w"
  shows "wf_closures (cleanup c w)"
  using assms unfolding wf_closures_def cleanup_def close_source_def clearTimeout_def Let_def
  by (auto simp: es_closure_close t_closure_clear split: option.splits)

lemma sse_effect_closures:
  assumes "wf_closures w"
  shows "wf_closures (sse_effect w)"
proof (cases "sessionId (st w) = []")
  case True
  with assms show ?thesis by (simp add: sse_effect_def wf_closures_def)
next
  case False
  let ?w1 = "w\<lparr>closures := closures w @
                    [\<lparr>c_sessionId = sessionId (st w),
                      c_connectionRetries = connectionRetries (st w),
                      eventSource = None, reconnectTimeout = None\<rparr>],
                  current := Some (length (closures w))\<rparr>"
  from assms have "wf_closures ?w1"
    unfolding wf_closures_def by (auto simp: nth_append less_Suc_eq)
  then have "wf_closures (connectToSession (length (closures w)) ?w1)"
    by (rule connect_closures) simp
  with False show ?thesis by (simp add: sse_effect_def Let_def)
qed

lemma sse_effect_current:
  assumes "deps w = (sessionId (st w), connectionRetries (st w))"
  shows "wf_current (sse_effect w)"
  using assms unfolding wf_current_def sse_effect_def connectToSession_def Let_def
  by (auto simp: nth_append)

lemma sse_effect_frame:
  "deps (sse_effect w) = deps w"
  "st (sse_effect w) = st w"
  "now (sse_effect w) = now w"
  "intervals (sse_effect w) = intervals w"
  "currentInterval (sse_effect w) = currentInterval w"
  "refreshDeps (sse_effect w) = refreshDeps w"
  by (simp_all add: sse_effect_def connect_frame Let_def)

lemma refresh_effect_frame:
  "deps (refresh_effect w) = deps w"
  "st (refresh_effect w) = st w"
  "now (refresh_effect w) = now w"
  "closures (refresh_effect w) = closures w"
  "sources (refresh_effect w) = sources w"
  "timers (refresh_effect w) = timers w"
  "current (refresh_effect w) = current w"
  "refreshDeps (refresh_effect w) = refreshDeps w"
  by (simp_all add: refresh_effect_def)

lemma clear_interval_inactive:
  assumes "wf_interval w"
  shows "\<forall>i<length (intervals w).
           \<not> iv_active (intervals (case currentInterval w of Some i \<Rightarrow> clearInterval i w | None \<Rightarrow> w) ! i)"
proof (cases "currentInterval w")
  case None
  with assms show ?thesis by (auto simp: wf_interval_def)
next
  case (Some k)
  with assms have "\<forall>i<length (intervals w). iv_active (intervals w ! i) \<longrightarrow> i = k"
    and "k < length (intervals w)"
    by (auto simp: wf_interval_def)
  with Some show ?thesis
    by (auto simp: clearInterval_def nth_list_update)
qed

lemma clear_interval_length:
  "length (intervals (case currentInterval w of Some i \<Rightarrow> clearInterval i w | None \<Rightarrow> w)) =
   length (intervals w)"
  by (simp add: clearInterval_def split: option.splits)

lemma refresh_rerun_interval:
  assumes "wf_interval w"
  shows "wf_interval (refresh_effect
           ((case currentInterval w of Some i \<Rightarrow> clearInterval i w | None \<Rightarrow> w)
              \<lparr>refreshDeps := sessionId (st w)\<rparr>))"
proof -
  let ?w1 = "case currentInterval w of Some i \<Rightarrow> clearInterval i w | None \<Rightarrow> w"
  have st: "st ?w1 = st w" by (simp add: clearInterval_def split: option.splits)
  from clear_interval_inactive[OF assms] clear_interval_length[of w]
  show ?thesis
    unfolding wf_interval_def refresh_effect_def
    by (auto simp: st nth_append)
qed


lemma clear_interval_frame:
  "st (case currentInterval w of Some i \<Rightarrow> clearInterval i w | None \<Rightarrow> w) = st w"
  "closures (case currentInterval w of Some i \<Rightarrow> clearInterval i w | None \<Rightarrow> w) = closures w"
  "sources (case currentInterval w of Some i \<Rightarrow> clearInterval i w | None \<Rightarrow> w) = sources w"
  "timers (case currentInterval w of Some i \<Rightarrow> clearInterval i w | None \<Rightarrow> w) = timers w"
  "current (case currentInterval w of Some i \<Rightarrow> clearInterval i w | None \<Rightarrow> w) = current w"
  "deps (case currentInterval w of Some i \<Rightarrow> clearInterval i w | None \<Rightarrow> w) = deps w"
  by (simp_all add: clearInterval_def split: option.splits)

lemma rerun_refresh_frame:
  "st (rerun_refresh_effect w) = st w"
  "closures (rerun_refresh_effect w) = closures w"
  "sources (rerun_refresh_effect w) = sources w"
  "timers (rerun_refresh_effect w) = timers w"
  "current (rerun_refresh_effect w) = current w"
  "deps (rerun_refresh_effect w) = deps w"
  by (simp_all add: rerun_refresh_effect_def refresh_effect_frame clear_interval_frame)

lemma rerun_refresh_synced:
  "refreshDeps (rerun_refresh_effect w) = sessionId (st w)"
  by (simp add: rerun_refresh_effect_def refresh_effect_frame)

lemma rerun_refresh_interval:
  "wf_interval w \<Longrightarrow> wf_interval (rerun_refresh_effect w)"
  by (simp add: rerun_refresh_effect_def refresh_rerun_interval)

lemma rerun_stream_frame:
  "st (rerun_stream_effect w) = st w"
  "now (rerun_stream_effect w) = now w"
  "intervals (rerun_stream_effect w) = intervals w"
  "currentInterval (rerun_stream_effect w) = currentInterval w"
  "refreshDeps (rerun_stream_effect w) = refreshDeps w"
  by (simp_all add: rerun_stream_effect_def Let_def sse_effect_frame cleanup_frame split: option.splits)

lemma rerun_stream_synced:
  "deps (rerun_stream_effect w) = (sessionId (st w), connectionRetries (st w))"
  by (simp add: rerun_stream_effect_def Let_def sse_effect_frame)

lemma rerun_stream_closures:
  assumes "wf_closures w"
  shows "wf_closures (rerun_stream_effect w)"
proof -
  let ?d = "(sessionId (st w), connectionRetries (st w))"
  let ?w1 = "case current w of Some c \<Rightarrow> cleanup c w | None \<Rightarrow> w"
  from assms have "wf_closures ?w1" by (simp add: cleanup_closures split: option.splits)
  then have "wf_closures (?w1\<lparr>deps := ?d\<rparr>)" by (simp add: wf_closures_def)
  then have "wf_closures (sse_effect (?w1\<lparr>deps := ?d\<rparr>))" by (rule sse_effect_closures)
  with assms show ?thesis by (simp add: rerun_stream_effect_def Let_def)
qed

lemma rerun_stream_current:
  assumes "wf_current w"
  shows "wf_current (rerun_stream_effect w)"
proof (cases "deps w = (sessionId (st w), connectionRetries (st w))")
  case True
  with assms show ?thesis by (simp add: rerun_stream_effect_def)
next
  case False
  let ?d = "(sessionId (st w), connectionRetries (st w))"
  let ?w1 = "(case current w of Some c \<Rightarrow> cleanup c w | None \<Rightarrow> w)\<lparr>deps := ?d\<rparr>"
  have "st ?w1 = st w" by (simp add: cleanup_frame split: option.splits)
  then have "deps ?w1 = (sessionId (st ?w1), connectionRetries (st ?w1))" by simp
  then have "wf_current (sse_effect ?w1)" by (rule sse_effect_current)
  with False show ?thesis by (simp add: rerun_stream_effect_def Let_def)
qed

lemma wf_closures_cong:
  "closures w' = closures w \<Longrightarrow> sources w' = sources w \<Longrightarrow> timers w' = timers w \<Longrightarrow>
   wf_closures w' = wf_closures w"
  by (simp add: wf_closures_def)

lemma wf_current_cong:
  "closures w' = closures w \<Longrightarrow> sources w' = sources w \<Longrightarrow> current w' = current w \<Longrightarrow>
   deps w' = deps w \<Longrightarrow> wf_current w' = wf_current w"
  by (simp add: wf_current_def cong: option.case_cong)

lemma wf_interval_cong:
  "intervals w' = intervals w \<Longrightarrow> currentInterval w' = currentInterval w \<Longrightarrow>
   refreshDeps w' = refreshDeps w \<Longrightarrow> wf_interval w' = wf_interval w"
  by (simp add: wf_interval_def cong: option.case_cong)

lemma wf_render:
  assumes "wf w"
  shows "wf (render w)" "synced (render w)"
proof -
  let ?w1 = "rerun_stream_effect w"
  have "wf_interval ?w1 = wf_interval w"
    by (rule wf_interval_cong) (simp_all add: rerun_stream_frame)
  with assms have 1: "wf_closures ?w1" "wf_current ?w1" "wf_interval ?w1"
    by (simp_all add: wf_def rerun_stream_closures rerun_stream_current)
  have "wf_closures (render w) = wf_closures ?w1"
    unfolding render_def by (rule wf_closures_cong) (simp_all add: rerun_refresh_frame)
  moreover have "wf_current (render w) = wf_current ?w1"
    unfolding render_def by (rule wf_current_cong) (simp_all add: rerun_refresh_frame)
  ultimately have "wf_closures (render w)" "wf_current (render w)"
    using 1 by simp_all
  moreover from 1 have "wf_interval (render w)"
    by (simp add: render_def rerun_refresh_interval)
  moreover from assms have "\<not> isGenerating (st (render w))"
    by (simp add: render_def rerun_refresh_frame rerun_stream_frame wf_def)
  ultimately show "wf (render w)" by (simp add: wf_def)
  show "synced (render w)"
    by (simp add: synced_def render_def rerun_refresh_frame rerun_refresh_synced
          rerun_stream_frame rerun_stream_synced)
qed

lemma render_synced_id: "synced w \<Longrightarrow> render w = w"
  by (simp add: synced_def render_def rerun_stream_effect_def rerun_refresh_effect_def)


lemma same_env_wf_all:
  assumes "same_env w w'" "wf w" "\<not> isGenerating (st w')"
  shows "wf w'"
  using assms same_env_wf[of w w'] by (simp add: wf_def)

lemma refresh_not_generating:
  "\<not> isGenerating (st w) \<Longrightarrow> \<not> isGenerating (st (refreshSession sid v g w))"
  by (simp add: refreshSession_def gen_not_generating setter_defs split: fetch_result.splits)

lemma same_env_simple:
  "same_env w (clearReceivedContent w)"
  "same_env w (openLink u w)"
  "same_env w (onopen w)"
  by (simp_all add: same_env_def clearReceivedContent_def openLink_def onopen_def setter_defs Let_def)

lemma isGenerating_simple:
  "isGenerating (st (clearReceivedContent w)) = isGenerating (st w)"
  "isGenerating (st (openLink u w)) = isGenerating (st w)"
  "isGenerating (st (onopen w)) = isGenerating (st w)"
  by (simp_all add: clearReceivedContent_def openLink_def onopen_def setter_defs Let_def)

lemma onmessage_env:
  "onmessage p rnd w = Inr w' \<Longrightarrow> same_env w w' \<and> isGenerating (st w') = isGenerating (st w)"
  by (auto simp: onmessage_def same_env_def setter_defs Let_def split: sum.splits if_splits)

lemma onerror_frame:
  "intervals (onerror c w) = intervals w"
  "currentInterval (onerror c w) = currentInterval w"
  "refreshDeps (onerror c w) = refreshDeps w"
  "isGenerating (st (onerror c w)) = isGenerating (st w)"
  "sessionId (st (onerror c w)) = sessionId (st w)"
  "connectionRetries (st (onerror c w)) = connectionRetries (st w)"
  "deps (onerror c w) = deps w"
  "current (onerror c w) = current w"
  "sources (onerror c w) = sources w"
  "now (onerror c w) = now w"
  by (simp_all add: onerror_def setter_defs Let_def)

lemma iv_due_update:
  "iv_active (xs[i := (xs ! i)\<lparr>iv_due := d\<rparr>] ! j) = iv_active (xs ! j)"
  "iv_period (xs[i := (xs ! i)\<lparr>iv_due := d\<rparr>] ! j) = iv_period (xs ! j)"
  "iv_sessionId (xs[i := (xs ! i)\<lparr>iv_due := d\<rparr>] ! j) = iv_sessionId (xs ! j)"
  by (cases "i < length xs"; auto simp: nth_list_update list_update_beyond)+

lemma wf_interval_tick:
  "wf_interval (w\<lparr>intervals := (intervals w)[i := (intervals w ! i)\<lparr>iv_due := d\<rparr>]\<rparr>) =
   wf_interval w"
  by (simp add: wf_interval_def iv_due_update cong: option.case_cong)

lemma wf_handle:
  assumes "wf w"
  shows "wf (handle e w)"
proof (cases e)
  case (NewSessionClick g)
  with assms show ?thesis
    using same_env_wf_all[OF same_env_generateSession[of w g] assms gen_not_generating] by simp
next
  case (RefreshClick v g)
  from assms have "\<not> isGenerating (st w)" by (simp add: wf_def)
  with RefreshClick assms show ?thesis
    using same_env_wf_all[OF same_env_refreshSession[of w "sessionId (st w)" v g] assms
            refresh_not_generating] by simp
next
  case (IntervalTick i v g)
  let ?w1 = "w\<lparr>intervals := (intervals w)
       [i := (intervals w ! i)\<lparr>iv_due := iv_due (intervals w ! i) + iv_period (intervals w ! i)\<rparr>]\<rparr>"
  from assms have "wf_interval ?w1"
    by (simp add: wf_def wf_interval_tick)
  moreover have "wf_closures ?w1 = wf_closures w"
    by (rule wf_closures_cong) simp_all
  moreover have "wf_current ?w1 = wf_current w"
    by (rule wf_current_cong) simp_all
  ultimately have "wf ?w1" using assms by (simp add: wf_def)
  then have "wf (refreshSession (iv_sessionId (intervals w ! i)) v g ?w1)"
    using same_env_wf_all[OF same_env_refreshSession[of ?w1 "iv_sessionId (intervals w ! i)" v g]]
      refresh_not_generating[of ?w1] by (simp add: wf_def)
  with IntervalTick assms show ?thesis by simp
next
  case ClearClick
  with assms show ?thesis
    using same_env_wf_all[OF same_env_simple(1)[of w] assms] by (simp add: isGenerating_simple wf_def)
next
  case (OpenClick k)
  have "wf (openLink u w)" for u
    using same_env_wf_all[OF same_env_simple(2)[of w u] assms] assms
    by (simp add: isGenerating_simple wf_def)
  with OpenClick assms show ?thesis
    by (auto simp: openButton_def split: option.splits sum.splits jsval.splits)
next
  case (StreamOpen h)
  with assms show ?thesis
    using same_env_wf_all[OF same_env_simple(3)[of w] assms] by (simp add: isGenerating_simple wf_def)
next
  case (StreamMessage h p rnd)
  with assms show ?thesis
    using same_env_wf_all[OF _ assms] by (auto simp: wf_def split: sum.splits dest!: onmessage_env)
next
  case (StreamError h)
  show ?thesis
  proof (cases "live h w")
    case True
    let ?c = "es_closure (sources w ! h)"
    from True assms have c: "?c < length (closures w)" by (simp add: live_def wf_def wf_closures_def)
    have "wf_interval (onerror ?c w) = wf_interval w"
      by (rule wf_interval_cong) (simp_all add: onerror_frame)
    with assms c have "wf (onerror ?c w)"
      by (simp add: wf_def onerror_closures onerror_current onerror_frame)
    with StreamError True show ?thesis by simp
  next
    case False
    with StreamError assms show ?thesis by simp
  qed
next
  case (TimerFire t)
  show ?thesis
  proof (cases "t < length (timers w) \<and> t_pending (timers w ! t) \<and> t_due (timers w ! t) \<le> now w")
    case True
    let ?c = "t_closure (timers w ! t)"
    let ?w1 = "setConnectionRetries (\<lambda>prev. prev + 1)
                 (w\<lparr>timers := (timers w)[t := (timers w ! t)\<lparr>t_pending := False\<rparr>]\<rparr>)"
    from True assms have c: "?c < length (closures ?w1)"
      by (simp add: wf_def wf_closures_def setter_defs)
    from assms have 1: "wf_closures ?w1"
      by (simp add: wf_def wf_closures_def setter_defs t_closure_clear)
    have "wf_current ?w1 = wf_current w"
      by (rule wf_current_cong) (simp_all add: setter_defs)
    with assms have 2: "wf_current ?w1" by (simp add: wf_def)
    have "wf_interval (connectToSession ?c ?w1) = wf_interval w"
      by (rule wf_interval_cong) (simp_all add: connect_frame setter_defs)
    with assms connect_closures[OF 1 c] connect_current[OF 1 2 c]
    have "wf (connectToSession ?c ?w1)"
      by (simp add: wf_def connect_frame setter_defs)
    with TimerFire True show ?thesis by (simp add: reconnect_def)
  next
    case False
    with TimerFire assms show ?thesis by auto
  qed
next
  case (Advance d)
  have "wf_closures (w\<lparr>now := now w + d\<rparr>) = wf_closures w"
    by (rule wf_closures_cong) simp_all
  moreover have "wf_current (w\<lparr>now := now w + d\<rparr>) = wf_current w"
    by (rule wf_current_cong) simp_all
  moreover have "wf_interval (w\<lparr>now := now w + d\<rparr>) = wf_interval w"
    by (rule wf_interval_cong) simp_all
  ultimately show ?thesis using Advance assms by (simp add: wf_def)
qed

lemma wf_step: "wf w \<Longrightarrow> wf (step e w) \<and> synced (step e w)"
  by (simp add: step_def wf_handle wf_render)

lemma wf_run: "wf w \<Longrightarrow> synced w \<Longrightarrow> wf (run es w) \<and> synced (run es w)"
  by (induction es arbitrary: w) (simp_all add: wf_step)

lemma wf_run_mount: "wf (run es (mount t0))" "synced (run es (mount t0))"
  using wf_run[OF wf_mount] by simp_all

section \<open>What one step does\<close>

lemma sse_effect_new:
  assumes "sessionId (st w) \<noteq> []"
  shows "current (sse_effect w) = Some (length (closures w))"
    and "sources (sse_effect w) = sources w @
           [\<lparr>es_url = ''/api/listen/'' @ sessionId (st w), es_closure = length (closures w),
             es_closed = False\<rparr>]"
    and "eventSource (closures (sse_effect w) ! length (closures w)) = Some (length (sources w))"
    and "timers (sse_effect w) = timers w"
  using assms by (simp_all add: sse_effect_def connectToSession_def Let_def)

lemma cleanup_sources:
  "length (sources (cleanup c w)) = length (sources w)"
  "length (timers (cleanup c w)) = length (timers w)"
  by (simp_all add: cleanup_def close_source_def clearTimeout_def Let_def split: option.splits)

lemma run_current:
  assumes "w = run es (mount t0)" "current w = Some c" "eventSource (closures w ! c) = Some h"
  shows "c < length (closures w)"
    and "c_connectionRetries (closures w ! c) = connectionRetries (st w)"
    and "c_sessionId (closures w ! c) = sessionId (st w)"
    and "sessionId (st w) \<noteq> []"
    and "live h w"
    and "es_closure (sources w ! h) = c"
proof -
  from assms(1) have wf: "wf_closures w" "wf_current w" and s: "synced w"
    using wf_run_mount[of es t0] by (simp_all add: wf_def)
  from wf(2) assms(2,3) s show c: "c < length (closures w)"
    and "c_connectionRetries (closures w ! c) = connectionRetries (st w)"
    and "c_sessionId (closures w ! c) = sessionId (st w)"
    and "sessionId (st w) \<noteq> []"
    by (auto simp: wf_current_def synced_def)
  from wf(2) assms(2,3) have "\<not> es_closed (sources w ! h)" by (auto simp: wf_current_def)
  moreover from wf(1) c assms(3) have "h < length (sources w)" "es_closure (sources w ! h) = c"
    by (auto simp: wf_closures_def)
  ultimately show "live h w" "es_closure (sources w ! h) = c" by (simp_all add: live_def)
qed

lemma error_step:
  assumes "w = run es (mount t0)" "current w = Some c" "eventSource (closures w ! c) = Some h"
    and "connectionRetries (st w) < 5"
  shows "step (StreamError h) w =
     w\<lparr>st := (st w)\<lparr>isConnected := False\<rparr>,
       logs := logs w @ [Msg ''SSE connection error:'',
                         Reconnecting (min (1000 * 2 ^ connectionRetries (st w)) 30000)],
       timers := timers w @
         [\<lparr>t_delay = min (1000 * 2 ^ connectionRetries (st w)) 30000,
           t_due = now w + min (1000 * 2 ^ connectionRetries (st w)) 30000,
           t_closure = c, t_pending = True\<rparr>],
       closures := (closures w)[c := (closures w ! c)\<lparr>reconnectTimeout := Some (length (timers w))\<rparr>]\<rparr>"
proof -
  note rc = run_current[OF assms(1-3)]
  from assms(1) have s: "synced w" by (simp add: wf_run_mount)
  let ?w' = "onerror c w"
  from rc(5,6) have "handle (StreamError h) w = ?w'" by simp
  moreover from s have "synced ?w'" by (simp add: synced_def onerror_frame)
  ultimately have "step (StreamError h) w = ?w'" by (simp add: step_def render_synced_id)
  also from rc(2) assms(4) have "?w' = w\<lparr>st := (st w)\<lparr>isConnected := False\<rparr>,
       logs := logs w @ [Msg ''SSE connection error:'',
                         Reconnecting (min (1000 * 2 ^ connectionRetries (st w)) 30000)],
       timers := timers w @
         [\<lparr>t_delay = min (1000 * 2 ^ connectionRetries (st w)) 30000,
           t_due = now w + min (1000 * 2 ^ connectionRetries (st w)) 30000,
           t_closure = c, t_pending = True\<rparr>],
       closures := (closures w)[c := (closures w ! c)\<lparr>reconnectTimeout := Some (length (timers w))\<rparr>]\<rparr>"
    by (simp add: onerror_def setter_defs Let_def)
  finally show ?thesis .
qed


text \<open>
  An error on any open stream, also one that is not the current one: the delay comes
  from the counter that the closure of that stream captured.
\<close>

lemma error_step_any_stream:
  assumes "w = run es (mount t0)" "live h w"
    and "c_connectionRetries (closures w ! es_closure (sources w ! h)) < 5"
  shows "timers (step (StreamError h) w) = timers w @
     [\<lparr>t_delay = min (1000 * 2 ^ c_connectionRetries (closures w ! es_closure (sources w ! h))) 30000,
       t_due = now w +
         min (1000 * 2 ^ c_connectionRetries (closures w ! es_closure (sources w ! h))) 30000,
       t_closure = es_closure (sources w ! h), t_pending = True\<rparr>]"
proof -
  from assms(1) have s: "synced w" by (simp add: wf_run_mount)
  let ?w' = "onerror (es_closure (sources w ! h)) w"
  from assms(2) have "handle (StreamError h) w = ?w'" by simp
  moreover from s have "synced ?w'" by (simp add: synced_def onerror_frame)
  ultimately have "step (StreamError h) w = ?w'" by (simp add: step_def render_synced_id)
  with assms(3) show ?thesis by (simp add: onerror_def setter_defs Let_def)
qed

lemma rerun_changed:
  assumes "deps w \<noteq> (sessionId (st w), connectionRetries (st w))" and "sessionId (st w) \<noteq> []"
  shows "current_stream (render w) = Some (length (sources w))"
    and "sources (render w) ! length (sources w) =
           \<lparr>es_url = ''/api/listen/'' @ sessionId (st w), es_closure = length (closures w),
             es_closed = False\<rparr>"
    and "length (sources (render w)) = Suc (length (sources w))"
    and "st (render w) = st w"
proof -
  let ?d = "(sessionId (st w), connectionRetries (st w))"
  let ?wC = "(case current w of Some c \<Rightarrow> cleanup c w | None \<Rightarrow> w)\<lparr>deps := ?d\<rparr>"
  have C: "st ?wC = st w" "closures ?wC = closures w" "length (sources ?wC) = length (sources w)"
    by (simp_all add: cleanup_frame cleanup_sources split: option.splits)
  from assms(1) have r: "rerun_stream_effect w = sse_effect ?wC"
    by (simp add: rerun_stream_effect_def Let_def)
  from assms(2) C have n: "sessionId (st ?wC) \<noteq> []" by simp
  note new = sse_effect_new[OF n]
  show "current_stream (render w) = Some (length (sources w))"
    using new(1,3) C by (simp add: current_stream_def render_def rerun_refresh_frame r)
  show "sources (render w) ! length (sources w) =
           \<lparr>es_url = ''/api/listen/'' @ sessionId (st w), es_closure = length (closures w),
             es_closed = False\<rparr>"
    using new(2) C by (simp add: render_def rerun_refresh_frame r nth_append)
  show "length (sources (render w)) = Suc (length (sources w))"
    using new(2) C by (simp add: render_def rerun_refresh_frame r)
  show "st (render w) = st w"
    by (simp add: render_def rerun_refresh_frame rerun_stream_frame)
qed

lemma list_all_take: "list_all P xs \<Longrightarrow> list_all P (take n xs)"
  by (auto simp: list_all_iff dest: in_set_takeD)

lemma substr_base36:
  assumes "base36 (drop 2 s)"
  shows "base36 (substr 2 9 s)" and "length (substr 2 9 s) \<le> 9"
proof -
  from assms show "base36 (substr 2 9 s)"
    unfolding base36_def substr_def by (rule list_all_take)
  show "length (substr 2 9 s) \<le> 9" by (simp add: substr_def)
qed

lemma content_step:
  assumes "synced w" "live h w" "field d ''type'' = JStr ''content''"
  shows "step (StreamMessage h (Inr d) rnd) w =
           show_toast \<lparr>title = ''Content Received!'',
                       description = NewReceived (field d ''contentType''),
                       destructive = False\<rparr>
             (setReceivedContent
                (\<lambda>prev. \<lparr>item_id = substr 2 9 rnd, content = field d ''content'',
                           item_type = field d ''contentType'', timestamp = now w\<rparr> # prev) w)"
proof -
  from assms(3) have "d \<noteq> Null" "d \<noteq> Undefined" by auto
  with assms(2,3) have "handle (StreamMessage h (Inr d) rnd) w =
           show_toast \<lparr>title = ''Content Received!'',
                       description = NewReceived (field d ''contentType''),
                       destructive = False\<rparr>
             (setReceivedContent
                (\<lambda>prev. \<lparr>item_id = substr 2 9 rnd, content = field d ''content'',
                           item_type = field d ''contentType'', timestamp = now w\<rparr> # prev) w)"
    by (simp add: onmessage_def)
  moreover from assms(1) have "synced \<dots>" by (simp add: synced_def setter_defs)
  ultimately show ?thesis by (simp add: step_def render_synced_id)
qed

lemma deliver_content:
  assumes "synced w" "live h w" "list_all (\<lambda>(d, rnd). field d ''type'' = JStr ''content'') evs"
  shows "receivedContent (st (run (deliver h evs) w)) =
           rev (map (\<lambda>(d, rnd). \<lparr>item_id = substr 2 9 rnd, content = field d ''content'',
                                  item_type = field d ''contentType'', timestamp = now w\<rparr>) evs)
           @ receivedContent (st w)"
  using assms
proof (induction evs arbitrary: w)
  case Nil
  then show ?case by (simp add: deliver_def)
next
  case (Cons e evs)
  obtain d rnd where e: "e = (d, rnd)" by (cases e)
  let ?w1 = "step (StreamMessage h (Inr d) rnd) w"
  from Cons.prems e have c: "field d ''type'' = JStr ''content''" by simp
  note eq = content_step[OF Cons.prems(1,2) c, of rnd]
  from Cons.prems(1,2) have "synced ?w1" "live h ?w1" "now ?w1 = now w"
    unfolding eq by (simp_all add: synced_def live_def setter_defs)
  moreover from Cons.prems e have "list_all (\<lambda>(d, rnd). field d ''type'' = JStr ''content'') evs"
    by simp
  ultimately have "receivedContent (st (run (deliver h evs) ?w1)) =
           rev (map (\<lambda>(d, rnd). \<lparr>item_id = substr 2 9 rnd, content = field d ''content'',
                                  item_type = field d ''contentType'', timestamp = now w\<rparr>) evs)
           @ receivedContent (st ?w1)"
    using Cons.IH[of ?w1] by simp
  moreover have "receivedContent (st ?w1) =
      \<lparr>item_id = substr 2 9 rnd, content = field d ''content'',
        item_type = field d ''contentType'', timestamp = now w\<rparr> # receivedContent (st w)"
    unfolding eq by (simp add: setter_defs)
  ultimately show ?case using e by (simp add: deliver_def)
qed

lemma run_append: "run (xs @ ys) w = run ys (run xs w)"
  by (induction xs arbitrary: w) simp_all

lemma connected_world_eval:
  "connected_world =
     \<lparr>st = \<lparr>sessionId = ''s'', qrCodeUrl = ''qr'', receivedContent = [], isConnected = False,
            isGenerating = False, connectionRetries = 0\<rparr>,
      now = 0,
      closures = [\<lparr>c_sessionId = ''s'', c_connectionRetries = 0, eventSource = Some 0,
                   reconnectTimeout = None\<rparr>],
      sources = [\<lparr>es_url = ''/api/listen/s'', es_closure = 0, es_closed = False\<rparr>],
      timers = [], current = Some 0, deps = (''s'', 0),
      intervals = [\<lparr>iv_period = 1800000, iv_due = 1800000, iv_sessionId = ''s'',
                    iv_active = True\<rparr>],
      currentInterval = Some 0, refreshDeps = ''s'', toasts = [], logs = [], windows = []\<rparr>"
  by (simp add: connected_world_def eval_defs)

lemma one_item_world_content:
  "receivedContent (st one_item_world) =
     [\<lparr>item_id = ''a1b2c3d4e'', content = JStr ''first'', item_type = JStr ''text'', timestamp = 0\<rparr>]"
  by (simp add: one_item_world_def eval_defs substr_def)

lemma retries_exhausted_eval:
  "run retries_exhausted (mount 0) =
   \<lparr>st = \<lparr>sessionId = ''s'', qrCodeUrl = ''qr'', receivedContent = [],
          isConnected = False, isGenerating = False, connectionRetries = 5\<rparr>,
    now = 31000,
    closures =
      [\<lparr>c_sessionId = ''s'', c_connectionRetries = 0, eventSource = Some 1,
          reconnectTimeout = Some 0\<rparr>,
       \<lparr>c_sessionId = ''s'', c_connectionRetries = 1, eventSource = Some 3,
          reconnectTimeout = Some 1\<rparr>,
       \<lparr>c_sessionId = ''s'', c_connectionRetries = 2, eventSource = Some 5,
          reconnectTimeout = Some 2\<rparr>,
       \<lparr>c_sessionId = ''s'', c_connectionRetries = 3, eventSource = Some 7,
          reconnectTimeout = Some 3\<rparr>,
       \<lparr>c_sessionId = ''s'', c_connectionRetries = 4, eventSource = Some 9,
          reconnectTimeout = Some 4\<rparr>,
       \<lparr>c_sessionId = ''s'', c_connectionRetries = 5, eventSource = Some 10,
          reconnectTimeout = None\<rparr>],
    sources =
      [\<lparr>es_url = ''/api/listen/s'', es_closure = 0, es_closed = True\<rparr>,
       \<lparr>es_url = ''/api/listen/s'', es_closure = 0, es_closed = True\<rparr>,
       \<lparr>es_url = ''/api/listen/s'', es_closure = 1, es_closed = True\<rparr>,
       \<lparr>es_url = ''/api/listen/s'', es_closure = 1, es_closed = True\<rparr>,
       \<lparr>es_url = ''/api/listen/s'', es_closure = 2, es_closed = True\<rparr>,
       \<lparr>es_url = ''/api/listen/s'', es_closure = 2, es_closed = True\<rparr>,
       \<lparr>es_url = ''/api/listen/s'', es_closure = 3, es_closed = True\<rparr>,
       \<lparr>es_url = ''/api/listen/s'', es_closure = 3, es_closed = True\<rparr>,
       \<lparr>es_url = ''/api/listen/s'', es_closure = 4, es_closed = True\<rparr>,
       \<lparr>es_url = ''/api/listen/s'', es_closure = 4, es_closed = True\<rparr>,
       \<lparr>es_url = ''/api/listen/s'', es_closure = 5, es_closed = False\<rparr>],
    timers =
      [\<lparr>t_delay = 1000, t_due = 1000, t_closure = 0, t_pending = False\<rparr>,
       \<lparr>t_delay = 2000, t_due = 3000, t_closure = 1, t_pending = False\<rparr>,
       \<lparr>t_delay = 4000, t_due = 7000, t_closure = 2, t_pending = False\<rparr>,
       \<lparr>t_delay = 8000, t_due = 15000, t_closure = 3, t_pending = False\<rparr>,
       \<lparr>t_delay = 16000, t_due = 31000, t_closure = 4, t_pending = False\<rparr>],
    current = Some 5, deps = (''s'', 5),
    intervals =
      [\<lparr>iv_period = 1800000, iv_due = 1800000, iv_sessionId = ''s'',
          iv_active = True\<rparr>],
    currentInterval = Some 0, refreshDeps = ''s'', toasts = [],
    logs =
      [Msg ''SSE connection error:'', Reconnecting 1000,
       Msg ''SSE connection error:'', Reconnecting 2000,
       Msg ''SSE connection error:'', Reconnecting 4000,
       Msg ''SSE connection error:'', Reconnecting 8000,
       Msg ''SSE connection error:'', Reconnecting 16000,
       Msg ''SSE connection error:''],
    windows = []\<rparr>"
  unfolding retries_exhausted_def by (simp add: eval_defs)

lemma retries_exhausted_lost_timer_eval:
  "run retries_exhausted_lost_timer (mount 0) =
   \<lparr>st = \<lparr>sessionId = ''s'', qrCodeUrl = ''qr'', receivedContent = [],
          isConnected = False, isGenerating = False, connectionRetries = 5\<rparr>,
    now = 31000,
    closures =
      [\<lparr>c_sessionId = ''s'', c_connectionRetries = 0, eventSource = Some 1,
          reconnectTimeout = Some 0\<rparr>,
       \<lparr>c_sessionId = ''s'', c_connectionRetries = 1, eventSource = Some 3,
          reconnectTimeout = Some 1\<rparr>,
       \<lparr>c_sessionId = ''s'', c_connectionRetries = 2, eventSource = Some 5,
          reconnectTimeout = Some 2\<rparr>,
       \<lparr>c_sessionId = ''s'', c_connectionRetries = 3, eventSource = Some 7,
          reconnectTimeout = Some 3\<rparr>,
       \<lparr>c_sessionId = ''s'', c_connectionRetries = 4, eventSource = Some 9,
          reconnectTimeout = Some 6\<rparr>,
       \<lparr>c_sessionId = ''s'', c_connectionRetries = 5, eventSource = Some 10,
          reconnectTimeout = None\<rparr>],
    sources =
      [\<lparr>es_url = ''/api/listen/s'', es_closure = 0, es_closed = True\<rparr>,
       \<lparr>es_url = ''/api/listen/s'', es_closure = 0, es_closed = True\<rparr>,
       \<lparr>es_url = ''/api/listen/s'', es_closure = 1, es_closed = True\<rparr>,
       \<lparr>es_url = ''/api/listen/s'', es_closure = 1, es_closed = True\<rparr>,
       \<lparr>es_url = ''/api/listen/s'', es_closure = 2, es_closed = True\<rparr>,
       \<lparr>es_url = ''/api/listen/s'', es_closure = 2, es_closed = True\<rparr>,
       \<lparr>es_url = ''/api/listen/s'', es_closure = 3, es_closed = True\<rparr>,
       \<lparr>es_url = ''/api/listen/s'', es_closure = 3, es_closed = True\<rparr>,
       \<lparr>es_url = ''/api/listen/s'', es_closure = 4, es_closed = True\<rparr>,
       \<lparr>es_url = ''/api/listen/s'', es_closure = 4, es_closed = True\<rparr>,
       \<lparr>es_url = ''/api/listen/s'', es_closure = 5, es_closed = False\<rparr>],
    timers =
      [\<lparr>t_delay = 1000, t_due = 1000, t_closure = 0, t_pending = False\<rparr>,
       \<lparr>t_delay = 2000, t_due = 3000, t_closure = 1, t_pending = False\<rparr>,
       \<lparr>t_delay = 4000, t_due = 7000, t_closure = 2, t_pending = False\<rparr>,
       \<lparr>t_delay = 8000, t_due = 15000, t_closure = 3, t_pending = False\<rparr>,
       \<lparr>t_delay = 16000, t_due = 31000, t_closure = 4, t_pending = False\<rparr>,
       \<lparr>t_delay = 16000, t_due = 34000, t_closure = 4, t_pending = True\<rparr>,
       \<lparr>t_delay = 16000, t_due = 37000, t_closure = 4, t_pending = False\<rparr>],
    current = Some 5, deps = (''s'', 5),
    intervals =
      [\<lparr>iv_period = 1800000, iv_due = 1800000, iv_sessionId = ''s'',
          iv_active = True\<rparr>],
    currentInterval = Some 0, refreshDeps = ''s'', toasts = [],
    logs =
      [Msg ''SSE connection error:'', Reconnecting 1000,
       Msg ''SSE connection error:'', Reconnecting 2000,
       Msg ''SSE connection error:'', Reconnecting 4000,
       Msg ''SSE connection error:'', Reconnecting 8000,
       Msg ''SSE connection error:'', Reconnecting 16000,
       Msg ''SSE connection error:'', Reconnecting 16000,
       Msg ''SSE connection error:'', Reconnecting 16000,
       Msg ''SSE connection error:''],
    windows = []\<rparr>"
  unfolding retries_exhausted_lost_timer_def by (simp add: eval_defs)

text \<open>The page with the render of its JSX: a mounted page follows \<open>run\<close>.\<close>

lemma st_render: "st (render w) = st w"
  by (simp add: render_def rerun_refresh_frame rerun_stream_frame)

lemma renders_render: "renders (render w) = renders w"
  by (simp add: renders_def displayed_def st_render)

lemma renders_iff:
  "renders w \<longleftrightarrow> list_all (\<lambda>it. has_includes (content it) \<and> valid_child (content it))
                    (receivedContent (st w))"
  by (auto simp: renders_def displayed_def Let_def list_all_iff)

lemma displayed_renders: "renders w \<Longrightarrow> displayed w = Inr (receivedContent (st w))"
  by (auto simp: renders_def displayed_def Let_def split: if_splits)

lemma page_run_unmounted: "page_run es (Unmounted w) = Unmounted w"
  by (induction es) simp_all

lemma page_step_mounted:
  "page_step e (Mounted w) = Mounted w' \<Longrightarrow> w' = step e w \<and> renders w'"
  by (auto simp: Let_def step_def renders_render split: if_splits)

lemma page_run_mounted:
  "page_run es (Mounted w) = Mounted w' \<Longrightarrow> renders w \<Longrightarrow> w' = run es w \<and> renders w'"
proof (induction es arbitrary: w)
  case Nil
  then show ?case by simp
next
  case (Cons e es)
  show ?case
  proof (cases "page_step e (Mounted w)")
    case (Mounted w1)
    from page_step_mounted[OF Mounted] have 1: "w1 = step e w" "renders w1" by blast+
    from Cons.prems(1) Mounted have "page_run es (Mounted w1) = Mounted w'" by simp
    from Cons.IH[OF this 1(2)] have "w' = run es w1" "renders w'" by blast+
    with 1(1) show ?thesis by simp
  next
    case (Unmounted w1)
    with Cons.prems(1) show ?thesis by (simp add: page_run_unmounted)
  qed
qed

lemma renders_mount: "renders (mount t0)"
  by (simp add: renders_iff mount_def)

lemma page_run_mount:
  assumes "page_run es (Mounted (mount t0)) = Mounted w"
  shows "w = run es (mount t0)" and "renders w" and "synced w" and "wf w"
proof -
  from page_run_mounted[OF assms renders_mount] show "w = run es (mount t0)" "renders w"
    by blast+
  then show "synced w" "wf w" by (simp_all add: wf_run_mount)
qed

lemma has_includes_string: "is_string v \<Longrightarrow> has_includes v \<and> valid_child v"
  by (cases v) simp_all

lemma content_page_step:
  assumes "synced w" "live h w" "renders w" "field d ''type'' = JStr ''content''"
    and "is_string (field d ''content'')"
  shows "page_step (StreamMessage h (Inr d) rnd) (Mounted w) =
           Mounted (step (StreamMessage h (Inr d) rnd) w)"
    and "renders (step (StreamMessage h (Inr d) rnd) w)"
proof -
  note eq = content_step[OF assms(1,2,4), of rnd]
  from assms(4) have nn: "d \<noteq> Null" "d \<noteq> Undefined" by auto
  with assms(2,4) have h: "handle (StreamMessage h (Inr d) rnd) w =
      show_toast \<lparr>title = ''Content Received!'',
                   description = NewReceived (field d ''contentType''),
                   destructive = False\<rparr>
        (setReceivedContent
           (\<lambda>prev. \<lparr>item_id = substr 2 9 rnd, content = field d ''content'',
                      item_type = field d ''contentType'', timestamp = now w\<rparr> # prev) w)"
    by (simp add: onmessage_def)
  from assms(3,5) have r: "renders (handle (StreamMessage h (Inr d) rnd) w)"
    unfolding h by (simp add: renders_iff setter_defs has_includes_string)
  then show "page_step (StreamMessage h (Inr d) rnd) (Mounted w) =
           Mounted (step (StreamMessage h (Inr d) rnd) w)"
    by (simp add: step_def)
  from r show "renders (step (StreamMessage h (Inr d) rnd) w)"
    by (simp add: step_def renders_render)
qed

lemma deliver_page_run:
  assumes "synced w" "live h w" "renders w"
    and "list_all (\<lambda>(d, rnd). field d ''type'' = JStr ''content'' \<and> is_string (field d ''content'')) evs"
  shows "page_run (deliver h evs) (Mounted w) = Mounted (run (deliver h evs) w)"
  using assms
proof (induction evs arbitrary: w)
  case Nil
  then show ?case by (simp add: deliver_def)
next
  case (Cons e evs)
  obtain d rnd where e: "e = (d, rnd)" by (cases e)
  let ?w1 = "step (StreamMessage h (Inr d) rnd) w"
  from Cons.prems e have c: "field d ''type'' = JStr ''content''" "is_string (field d ''content'')"
    by simp_all
  note ps = content_page_step[OF Cons.prems(1-3) c, of rnd]
  note eq = content_step[OF Cons.prems(1,2) c(1), of rnd]
  from Cons.prems(1,2) have "synced ?w1" "live h ?w1"
    unfolding eq by (simp_all add: synced_def live_def setter_defs)
  moreover from Cons.prems e have
    "list_all (\<lambda>(d, rnd). field d ''type'' = JStr ''content'' \<and> is_string (field d ''content'')) evs"
    by simp
  ultimately have "page_run (deliver h evs) (Mounted ?w1) = Mounted (run (deliver h evs) ?w1)"
    using Cons.IH[of ?w1] ps(2) by simp
  with ps(1) e show ?case by (simp add: deliver_def)
qed


lemma connected_page:
  "page_run [NewSessionClick (GenData ''s'' ''qr'')] (Mounted (mount 0)) = Mounted connected_world"
  by (simp add: connected_world_def eval_defs renders_def displayed_def)

lemma one_item_page:
  "page_run [NewSessionClick (GenData ''s'' ''qr''),
             StreamMessage 0 (Inr (JObj [(''type'', JStr ''content''), (''contentType'', JStr ''text''),
                                         (''content'', JStr ''first'')])) ''0.a1b2c3d4e7k'']
     (Mounted (mount 0)) = Mounted one_item_world"
  by (simp add: one_item_world_def eval_defs renders_def displayed_def)

text \<open>
  The guard of line 121 as the current run of the effect sees it: with the counter at 5
  or more, an error on the stream that run holds schedules nothing.
\<close>

lemma error_step_exhausted:
  assumes "w = run es (mount t0)" "current w = Some c" "eventSource (closures w ! c) = Some h"
    and "5 \<le> connectionRetries (st w)"
  shows "step (StreamError h) w =
     w\<lparr>st := (st w)\<lparr>isConnected := False\<rparr>,
       logs := logs w @ [Msg ''SSE connection error:'']\<rparr>"
proof -
  note rc = run_current[OF assms(1-3)]
  from assms(1) have s: "synced w" by (simp add: wf_run_mount)
  from rc(5,6) have "handle (StreamError h) w = onerror c w" by simp
  moreover from s have "synced (onerror c w)" by (simp add: synced_def onerror_frame)
  ultimately have "step (StreamError h) w = onerror c w" by (simp add: step_def render_synced_id)
  also from rc(2) assms(4) have "onerror c w =
     w\<lparr>st := (st w)\<lparr>isConnected := False\<rparr>,
       logs := logs w @ [Msg ''SSE connection error:'']\<rparr>"
    by (simp add: onerror_def setter_defs Let_def)
  finally show ?thesis .
qed

section \<open>The claims\<close>

subsection \<open>C1: reconnection with exponential backoff\<close>

text \<open>
  Claim C1 says that every stream error met while the retry counter is below 5 schedules
  one reconnect whose delay is computed from the current retry counter. The code breaks
  this on a stream that a lost timer left open. Each error handler stores its timer in
  \<^verbatim>\<open>reconnectTimeout\<close> without clearing the one stored before (line 125), and the
  cleanup of the effect clears only the handle stored last (lines 139-141). In the run
  \<open>retries_exhausted_lost_timer\<close> stream 8 reports three errors with the counter at 4, so
  timers 4, 5 and 6 are scheduled; timer 4 fires, the cleanup clears timer 6, and timer
  5 stays pending. When it fires, its callback opens stream 11 from the closure that
  captured the counter 4 and whose cleanup has already run, so nothing will close that
  stream; the effect runs again and opens stream 12. Stream 12 opens, which resets the
  counter to 0. An error on stream 11 now, with the counter at 0, schedules a reconnect
  after 16000 ms, the delay of the captured counter 4, where the claim gives
  \<open>min (1000 * 2 ^ 0) 30000 = 1000\<close>.
\<close>

theorem C1_stale_stream_delay:
  "t_pending (timers (run retries_exhausted_lost_timer (mount 0)) ! 5) \<and>
   live 11 (run (retries_exhausted_lost_timer @ [Advance 3000, TimerFire 5, StreamOpen 12])
              (mount 0)) \<and>
   es_closure (sources (run (retries_exhausted_lost_timer @
       [Advance 3000, TimerFire 5, StreamOpen 12]) (mount 0)) ! 11) = 4 \<and>
   c_connectionRetries (closures (run (retries_exhausted_lost_timer @
       [Advance 3000, TimerFire 5, StreamOpen 12]) (mount 0)) ! 4) = 4 \<and>
   current_stream (run (retries_exhausted_lost_timer @
       [Advance 3000, TimerFire 5, StreamOpen 12]) (mount 0)) = Some 13 \<and>
   connectionRetries (st (run (retries_exhausted_lost_timer @
       [Advance 3000, TimerFire 5, StreamOpen 12]) (mount 0))) = 0 \<and>
   length (timers (run (retries_exhausted_lost_timer @
       [Advance 3000, TimerFire 5, StreamOpen 12]) (mount 0))) = 7 \<and>
   timers (run (retries_exhausted_lost_timer @
       [Advance 3000, TimerFire 5, StreamOpen 12, StreamError 11]) (mount 0)) ! 7 =
     \<lparr>t_delay = 16000, t_due = 50000, t_closure = 4, t_pending = True\<rparr> \<and>
   min (1000 * 2 ^ connectionRetries (st (run (retries_exhausted_lost_timer @
       [Advance 3000, TimerFire 5, StreamOpen 12]) (mount 0)))) 30000 = (1000 :: nat)"
  unfolding run_append retries_exhausted_lost_timer_eval
  by (simp add: eval_defs current_stream_def)

text \<open>
  On the stream that the current run of the stream effect holds, the policy is the one
  described. Take any run of the page and that stream \<open>h\<close>. If the retry counter \<open>n\<close> is
  below 5, an error on \<open>h\<close> schedules exactly one timer, with delay
  \<open>min (1000 * 2 ^ n) 30000\<close> milliseconds counted from the moment of the error, opens
  no stream at that moment and only sets \<^verbatim>\<open>isConnected\<close> to false in the state. The
  timer cannot fire before the delay has elapsed. When it fires after the delay, the
  counter becomes \<open>n + 1\<close> and the page holds a fresh open stream to
  \<^verbatim>\<open>/api/listen/<sessionId>\<close>. The first connection needs no timer: in the very step in
  which a session id becomes known to a page that had none, the stream is opened, with
  no timer scheduled and no time passing.
\<close>

theorem backoff_on_current_stream:
  assumes "w = run es (mount t0)" and "current w = Some c"
    and "eventSource (closures w ! c) = Some h" and "connectionRetries (st w) < 5"
  shows "let n = connectionRetries (st w);
             delay = min (1000 * 2 ^ n) 30000;
             t = length (timers w);
             w' = step (StreamError h) w
         in timers w' = timers w @
              [\<lparr>t_delay = delay, t_due = now w + delay, t_closure = c, t_pending = True\<rparr>] \<and>
            sources w' = sources w \<and>
            st w' = (st w)\<lparr>isConnected := False\<rparr> \<and>
            (\<forall>d<delay. step (TimerFire t) (step (Advance d) w') = step (Advance d) w') \<and>
            (let w2 = step (TimerFire t) (step (Advance delay) w')
             in connectionRetries (st w2) = n + 1 \<and>
                current_stream w2 = Some (Suc (length (sources w))) \<and>
                live (Suc (length (sources w))) w2 \<and>
                es_url (sources w2 ! Suc (length (sources w))) =
                  ''/api/listen/'' @ sessionId (st w)) \<and>
            (sid \<noteq> [] \<and> sessionId (st (run es0 (mount t1))) = [] \<longrightarrow>
               (let w0 = run es0 (mount t1);
                    w1 = step (NewSessionClick (GenData sid qr)) w0
                in sources w1 = sources w0 @
                     [\<lparr>es_url = ''/api/listen/'' @ sid, es_closure = length (closures w0),
                       es_closed = False\<rparr>] \<and>
                   current_stream w1 = Some (length (sources w0)) \<and>
                   timers w1 = timers w0 \<and> now w1 = now w0))"
proof -
  define n where "n = connectionRetries (st w)"
  define delay :: nat where "delay = min (1000 * 2 ^ n) 30000"
  define t where "t = length (timers w)"
  define w' where "w' = step (StreamError h) w"
  note rc = run_current[OF assms(1-3)]
  from assms(1) have s: "synced w" by (simp add: wf_run_mount)
  have w': "w' = w\<lparr>st := (st w)\<lparr>isConnected := False\<rparr>,
       logs := logs w @ [Msg ''SSE connection error:'', Reconnecting delay],
       timers := timers w @
         [\<lparr>t_delay = delay, t_due = now w + delay, t_closure = c, t_pending = True\<rparr>],
       closures := (closures w)[c := (closures w ! c)\<lparr>reconnectTimeout := Some t\<rparr>]\<rparr>"
    unfolding w'_def delay_def n_def t_def by (rule error_step[OF assms])
  have A: "timers w' = timers w @
              [\<lparr>t_delay = delay, t_due = now w + delay, t_closure = c, t_pending = True\<rparr>]"
      "sources w' = sources w" "st w' = (st w)\<lparr>isConnected := False\<rparr>"
    by (simp_all add: w')
  from s have s': "synced w'" by (simp add: w' synced_def)
  have adv: "step (Advance d) w' = w'\<lparr>now := now w + d\<rparr>" for d
  proof -
    from s' have "synced (w'\<lparr>now := now w' + d\<rparr>)" by (simp add: synced_def)
    then show ?thesis by (simp add: step_def render_synced_id) (simp add: w')
  qed
  have early: "step (TimerFire t) (step (Advance d) w') = step (Advance d) w'" if "d < delay" for d
  proof -
    from that have h: "handle (TimerFire t) (w'\<lparr>now := now w + d\<rparr>) = w'\<lparr>now := now w + d\<rparr>"
      by (simp add: A t_def)
    from s' have sy: "synced (w'\<lparr>now := now w + d\<rparr>)" by (simp add: synced_def)
    show ?thesis unfolding adv by (simp only: step_def h render_synced_id[OF sy])
  qed
  define wR where "wR = handle (TimerFire t) (w'\<lparr>now := now w + delay\<rparr>)"
  have wR: "wR = connectToSession c
      (setConnectionRetries (\<lambda>prev. prev + 1)
         (w'\<lparr>now := now w + delay,
             timers := (timers w')[t := (timers w' ! t)\<lparr>t_pending := False\<rparr>]\<rparr>))"
    by (simp add: wR_def w' t_def reconnect_def)
  have R: "st wR = (st w)\<lparr>isConnected := False, connectionRetries := n + 1\<rparr>"
      "deps wR = deps w" "length (sources wR) = Suc (length (sources w))"
    by (simp_all add: wR connect_frame setter_defs w' n_def)
  from s rc(4) R have ch: "deps wR \<noteq> (sessionId (st wR), connectionRetries (st wR))"
      "sessionId (st wR) \<noteq> []"
    by (simp_all add: synced_def n_def)
  have w2: "step (TimerFire t) (step (Advance delay) w') = render wR"
    unfolding adv by (simp only: step_def wR_def)
  note rr = rerun_changed[OF ch]
  have fire: "connectionRetries (st (render wR)) = n + 1"
      "current_stream (render wR) = Some (Suc (length (sources w)))"
      "live (Suc (length (sources w))) (render wR)"
      "es_url (sources (render wR) ! Suc (length (sources w))) = ''/api/listen/'' @ sessionId (st w)"
    using rr R by (simp_all add: live_def)
  have init: "sid \<noteq> [] \<and> sessionId (st (run es0 (mount t1))) = [] \<longrightarrow>
      sources (step (NewSessionClick (GenData sid qr)) (run es0 (mount t1))) =
        sources (run es0 (mount t1)) @
          [\<lparr>es_url = ''/api/listen/'' @ sid, es_closure = length (closures (run es0 (mount t1))),
            es_closed = False\<rparr>] \<and>
      current_stream (step (NewSessionClick (GenData sid qr)) (run es0 (mount t1))) =
        Some (length (sources (run es0 (mount t1)))) \<and>
      timers (step (NewSessionClick (GenData sid qr)) (run es0 (mount t1))) =
        timers (run es0 (mount t1)) \<and>
      now (step (NewSessionClick (GenData sid qr)) (run es0 (mount t1))) =
        now (run es0 (mount t1))"
  proof
    assume a: "sid \<noteq> [] \<and> sessionId (st (run es0 (mount t1))) = []"
    define w0 where "w0 = run es0 (mount t1)"
    define w1 where "w1 = step (NewSessionClick (GenData sid qr)) w0"
    from a have sid: "sid \<noteq> []" and no: "sessionId (st w0) = []" by (simp_all add: w0_def)
    have wf0: "wf w0" and s0: "synced w0" by (simp_all add: w0_def wf_run_mount)
    from wf0 s0 no have cur: "current w0 = None"
      by (cases "current w0") (auto simp: wf_def wf_current_def synced_def)
    from wf0 have ng: "\<not> isGenerating (st w0)" by (simp add: wf_def)
    define wg where "wg = generateSession (GenData sid qr) w0"
    from ng have 1: "w1 = render wg" by (simp add: w1_def wg_def step_def)
    have g: "sessionId (st wg) = sid" "current wg = None" "deps wg = deps w0"
        "sources wg = sources w0" "closures wg = closures w0" "timers wg = timers w0"
        "now wg = now w0"
      using cur by (simp_all add: wg_def generateSession_def setter_defs Let_def)
    from s0 no sid g have d: "deps wg \<noteq> (sessionId (st wg), connectionRetries (st wg))"
      by (auto simp: synced_def)
    define wC where "wC = wg\<lparr>deps := (sessionId (st wg), connectionRetries (st wg))\<rparr>"
    from d g have r: "rerun_stream_effect wg = sse_effect wC"
      by (simp add: rerun_stream_effect_def Let_def wC_def)
    from sid g have "sessionId (st wC) \<noteq> []" by (simp add: wC_def)
    note new = sse_effect_new[OF this]
    have C: "sources wC = sources w0" "closures wC = closures w0" "timers wC = timers w0"
        "sessionId (st wC) = sid"
      using g by (simp_all add: wC_def)
    have "sources w1 = sources (sse_effect wC)" "timers w1 = timers (sse_effect wC)"
        "current w1 = current (sse_effect wC)" "closures w1 = closures (sse_effect wC)"
      by (simp_all add: 1 render_def rerun_refresh_frame r)
    with new C have "sources w1 = sources w0 @
          [\<lparr>es_url = ''/api/listen/'' @ sid, es_closure = length (closures w0), es_closed = False\<rparr>]"
        "current_stream w1 = Some (length (sources w0))" "timers w1 = timers w0"
      by (simp_all add: current_stream_def)
    moreover have "now w1 = now w0"
      by (simp add: 1 render_def rerun_refresh_effect_def refresh_effect_frame rerun_stream_frame g
          clearInterval_def split: option.splits)
    ultimately show "sources (step (NewSessionClick (GenData sid qr)) (run es0 (mount t1))) =
        sources (run es0 (mount t1)) @
          [\<lparr>es_url = ''/api/listen/'' @ sid, es_closure = length (closures (run es0 (mount t1))),
            es_closed = False\<rparr>] \<and>
      current_stream (step (NewSessionClick (GenData sid qr)) (run es0 (mount t1))) =
        Some (length (sources (run es0 (mount t1)))) \<and>
      timers (step (NewSessionClick (GenData sid qr)) (run es0 (mount t1))) =
        timers (run es0 (mount t1)) \<and>
      now (step (NewSessionClick (GenData sid qr)) (run es0 (mount t1))) =
        now (run es0 (mount t1))"
      unfolding w1_def w0_def by blast
  qed
  have early': "\<forall>d<delay. step (TimerFire t) (step (Advance d) w') = step (Advance d) w'"
    using early by blast
  show ?thesis
    unfolding Let_def n_def[symmetric] delay_def[symmetric] t_def[symmetric] w'_def[symmetric] w2
    using A early' fire init by blast
qed


text \<open>An instance: the first error after the first connection, with delay 1000 ms.\<close>

theorem backoff_on_current_stream_witness:
  "current connected_world = Some 0 \<and>
   eventSource (closures connected_world ! 0) = Some 0 \<and>
   connectionRetries (st connected_world) < 5 \<and>
   timers (step (StreamError 0) connected_world) =
     [\<lparr>t_delay = 1000, t_due = 1000, t_closure = 0, t_pending = True\<rparr>] \<and>
   step (TimerFire 0) (step (Advance 999) (step (StreamError 0) connected_world)) =
     step (Advance 999) (step (StreamError 0) connected_world) \<and>
   connectionRetries
     (st (step (TimerFire 0) (step (Advance 1000) (step (StreamError 0) connected_world)))) = 1 \<and>
   ''s'' \<noteq> [] \<and> sessionId (st (run [] (mount 0))) = [] \<and>
   sources (step (NewSessionClick (GenData ''s'' ''qr'')) (run [] (mount 0))) =
     [\<lparr>es_url = ''/api/listen/s'', es_closure = 0, es_closed = False\<rparr>]"
proof -
  have h1: "current connected_world = Some 0"
    and h2: "eventSource (closures connected_world ! 0) = Some 0"
    and h3: "connectionRetries (st connected_world) < 5"
    by (simp_all add: connected_world_eval)
  have h4: "''s'' \<noteq> [] \<and> sessionId (st (run [] (mount 0))) = []"
    by (simp add: mount_def)
  have base: "timers connected_world = []" "now connected_world = 0"
    "connectionRetries (st connected_world) = 0"
    "sources (run [] (mount 0)) = []" "closures (run [] (mount 0)) = []"
    by (simp_all add: connected_world_eval mount_def)
  note th = backoff_on_current_stream[OF connected_world_def h1 h2 h3,
      where sid = "''s''" and qr = "''qr''" and ?es0.0 = "[]" and ?t1.0 = 0, unfolded Let_def base]
  from th h1 h2 h3 h4 show ?thesis by simp
qed

subsection \<open>C2: no reconnect after the attempts are exhausted\<close>

text \<open>
  Claim C2, as stated, fails: the disconnected state reached with the counter at 5 is
  not permanent, and the page connects again without any action of the user. In the
  run \<open>retries_exhausted\<close> the counter is 5, the page is disconnected and eleven streams
  have been created. If stream 10, which the page never closed, then opens (the server
  is back), \<^verbatim>\<open>onopen\<close> resets the counter to 0; the counter being a dependency of the
  stream effect, the effect runs again, closes stream 10 and opens stream 11. And if
  instead the periodic refresh, half an hour after the session was created, finds the
  session invalid, it installs the new session \<^verbatim>\<open>n\<close>, and the effect opens stream 11 to
  \<^verbatim>\<open>/api/listen/n\<close>, which then reports that it is open.
\<close>

theorem C2_counterexample:
  "connectionRetries (st (run retries_exhausted (mount 0))) = 5 \<and>
   \<not> isConnected (st (run retries_exhausted (mount 0))) \<and>
   length (sources (run retries_exhausted (mount 0))) = 11 \<and>
   isConnected (st (run (retries_exhausted @ [StreamOpen 10]) (mount 0))) \<and>
   connectionRetries (st (run (retries_exhausted @ [StreamOpen 10]) (mount 0))) = 0 \<and>
   length (sources (run (retries_exhausted @ [StreamOpen 10]) (mount 0))) = 12 \<and>
   live 11 (run (retries_exhausted @ [StreamOpen 10]) (mount 0)) \<and>
   isConnected (st (run (retries_exhausted @
       [Advance 1769000, IntervalTick 0 (Response False) (GenData ''n'' ''qr2''),
        StreamOpen 11]) (mount 0))) \<and>
   sources (run (retries_exhausted @
       [Advance 1769000, IntervalTick 0 (Response False) (GenData ''n'' ''qr2''),
        StreamOpen 11]) (mount 0)) ! 11 =
     \<lparr>es_url = ''/api/listen/n'', es_closure = 6, es_closed = False\<rparr>"
  unfolding run_append retries_exhausted_eval by (simp add: eval_defs)

text \<open>
  Claim C2, amended. In every run, once the retry counter is 5 or more, stream errors
  on the stream held by the current run of the stream effect, however many follow one
  another, schedule no reconnect: no timer, stream or closure is created or changed,
  the counter keeps its value, and the page is marked disconnected.
\<close>

theorem C2_exhausted_errors_schedule_nothing:
  assumes "w = run es (mount t0)" and "current w = Some c"
    and "eventSource (closures w ! c) = Some h" and "5 \<le> connectionRetries (st w)"
  shows "run (replicate (Suc k) (StreamError h)) w =
           w\<lparr>st := (st w)\<lparr>isConnected := False\<rparr>,
             logs := logs w @ replicate (Suc k) (Msg ''SSE connection error:'')\<rparr> \<and>
         timers (run (replicate (Suc k) (StreamError h)) w) = timers w \<and>
         sources (run (replicate (Suc k) (StreamError h)) w) = sources w \<and>
         connectionRetries (st (run (replicate (Suc k) (StreamError h)) w)) =
           connectionRetries (st w) \<and>
         \<not> isConnected (st (run (replicate (Suc k) (StreamError h)) w))"
proof -
  have "run (replicate (Suc k) (StreamError h)) w =
           w\<lparr>st := (st w)\<lparr>isConnected := False\<rparr>,
             logs := logs w @ replicate (Suc k) (Msg ''SSE connection error:'')\<rparr>"
  proof (induction k)
    case 0
    from error_step_exhausted[OF assms] show ?case by simp
  next
    case (Suc k)
    let ?es = "replicate (Suc k) (StreamError h)"
    let ?w = "w\<lparr>st := (st w)\<lparr>isConnected := False\<rparr>,
               logs := logs w @ replicate (Suc k) (Msg ''SSE connection error:'')\<rparr>"
    from Suc have r: "run ?es w = ?w" .
    with assms(1) have a: "?w = run (es @ ?es) (mount t0)" by (simp only: run_append)
    from assms(2-4) have b: "current ?w = Some c" "eventSource (closures ?w ! c) = Some h"
        "5 \<le> connectionRetries (st ?w)" by simp_all
    have "replicate (Suc (Suc k)) (StreamError h) = ?es @ [StreamError h]"
      by (simp add: replicate_append_same)
    then have "run (replicate (Suc (Suc k)) (StreamError h)) w = run [StreamError h] (run ?es w)"
      by (simp only: run_append)
    also have "\<dots> = step (StreamError h) ?w" by (simp only: r run.simps)
    also from error_step_exhausted[OF a b]
    have "\<dots> = ?w\<lparr>st := (st ?w)\<lparr>isConnected := False\<rparr>,
                   logs := logs ?w @ [Msg ''SSE connection error:'']\<rparr>" .
    also have "\<dots> = w\<lparr>st := (st w)\<lparr>isConnected := False\<rparr>,
             logs := logs w @ replicate (Suc (Suc k)) (Msg ''SSE connection error:'')\<rparr>"
      by (simp add: replicate_append_same)
    finally show ?case .
  qed
  then show ?thesis by simp
qed

text \<open>Witness of the amended C2: two more errors on stream 10 after the exhaustion.\<close>

theorem C2_exhausted_errors_schedule_nothing_witness:
  "current (run retries_exhausted (mount 0)) = Some 5 \<and>
   eventSource (closures (run retries_exhausted (mount 0)) ! 5) = Some 10 \<and>
   5 \<le> connectionRetries (st (run retries_exhausted (mount 0))) \<and>
   length (timers (run [StreamError 10, StreamError 10] (run retries_exhausted (mount 0)))) = 5 \<and>
   \<not> isConnected (st (run [StreamError 10, StreamError 10] (run retries_exhausted (mount 0))))"
proof -
  have h: "current (run retries_exhausted (mount 0)) = Some 5"
    "eventSource (closures (run retries_exhausted (mount 0)) ! 5) = Some 10"
    "5 \<le> connectionRetries (st (run retries_exhausted (mount 0)))"
    by (simp_all add: retries_exhausted_eval)
  have t: "length (timers (run retries_exhausted (mount 0))) = 5"
    by (simp add: retries_exhausted_eval)
  have r: "replicate (Suc (Suc 0)) (StreamError 10) = [StreamError 10, StreamError 10]" by simp
  from C2_exhausted_errors_schedule_nothing[OF refl h, of "Suc 0", unfolded r] h t
  show ?thesis by simp
qed

subsection \<open>The lost timer and the cap of five retries\<close>

text \<open>
  Each error handler stores its timer in \<^verbatim>\<open>reconnectTimeout\<close> without clearing the one
  stored before (line 125), and the cleanup of the effect clears only the handle stored
  last (lines 139-141). In the run \<open>retries_exhausted_lost_timer\<close> stream 8 reports three
  errors; timers 4, 5 and 6 are scheduled; timer 4 fires and brings the counter to 5,
  the cleanup clears timer 6, and the error on stream 10 leaves the page disconnected
  with seven timers, none added. Timer 5 is still pending. Three seconds later it fires:
  the counter becomes 6, its callback opens stream 11 from the closure whose cleanup has
  already run, so that nothing will close it, and the effect runs again for the new
  counter and opens stream 12. An error on stream 11 then schedules a further reconnect,
  with the delay 16000 of the counter 4 that its closure captured.
\<close>

theorem lost_timer_reconnects_after_exhaustion:
  "connectionRetries (st (run retries_exhausted_lost_timer (mount 0))) = 5 \<and>
   \<not> isConnected (st (run retries_exhausted_lost_timer (mount 0))) \<and>
   current_stream (run retries_exhausted_lost_timer (mount 0)) = Some 10 \<and>
   length (timers (run retries_exhausted_lost_timer (mount 0))) = 7 \<and>
   t_pending (timers (run retries_exhausted_lost_timer (mount 0)) ! 5) \<and>
   connectionRetries
     (st (run (retries_exhausted_lost_timer @ [Advance 3000, TimerFire 5]) (mount 0))) = 6 \<and>
   length (sources (run (retries_exhausted_lost_timer @ [Advance 3000, TimerFire 5]) (mount 0))) =
     length (sources (run retries_exhausted_lost_timer (mount 0))) + 2 \<and>
   live 11 (run (retries_exhausted_lost_timer @ [Advance 3000, TimerFire 5]) (mount 0)) \<and>
   es_closure
     (sources (run (retries_exhausted_lost_timer @ [Advance 3000, TimerFire 5]) (mount 0)) ! 11) = 4 \<and>
   current (run (retries_exhausted_lost_timer @ [Advance 3000, TimerFire 5]) (mount 0)) = Some 6 \<and>
   timers (run (retries_exhausted_lost_timer @ [Advance 3000, TimerFire 5, StreamError 11])
             (mount 0)) ! 7 =
     \<lparr>t_delay = 16000, t_due = 50000, t_closure = 4, t_pending = True\<rparr>"
  unfolding run_append retries_exhausted_lost_timer_eval
  by (simp add: eval_defs current_stream_def)

subsection \<open>C3: refreshing an invalid session\<close>

text \<open>
  Claim C3, as stated, fails when the request that creates the replacement session fails
  too: the validation response is not OK, \<^verbatim>\<open>generateSession\<close> catches the failure and
  shows its destructive error toast, and the session id stays as it was.
\<close>

theorem C3_counterexample:
  "sessionId (st (refreshSession ''s'' (Response False) GenFailed one_item_world)) = ''s'' \<and>
   toasts (refreshSession ''s'' (Response False) GenFailed one_item_world) =
     toasts one_item_world @
     [\<lparr>title = ''Error'', description = Plain ''Failed to generate session'', destructive = True\<rparr>,
      \<lparr>title = ''Session Refreshed'',
       description = Plain ''Your session was refreshed due to expiration'', destructive = False\<rparr>]"
  by (simp add: one_item_world_def eval_defs)

text \<open>
  Claim C3, amended. For a page with a session id, a validation response that is not
  OK makes \<^verbatim>\<open>refreshSession\<close> run \<^verbatim>\<open>generateSession\<close>; when the creation request
  succeeds, the session id and the QR payload are those of the new session and the only
  notice shown is the non-destructive "Session Refreshed". When the validation response
  is OK, nothing changes at all.
\<close>

theorem C3_refresh_replaces_session:
  assumes "sid \<noteq> []"
  shows "refreshSession sid (Response False) g w =
           show_toast \<lparr>title = ''Session Refreshed'',
                       description = Plain ''Your session was refreshed due to expiration'',
                       destructive = False\<rparr> (generateSession g w) \<and>
         sessionId (st (refreshSession sid (Response False) (GenData sid' qr) w)) = sid' \<and>
         qrCodeUrl (st (refreshSession sid (Response False) (GenData sid' qr) w)) = qr \<and>
         toasts (refreshSession sid (Response False) (GenData sid' qr) w) =
           toasts w @ [\<lparr>title = ''Session Refreshed'',
                        description = Plain ''Your session was refreshed due to expiration'',
                        destructive = False\<rparr>] \<and>
         refreshSession sid (Response True) g w = w"
  using assms by (simp add: refreshSession_def generateSession_def setter_defs Let_def)

text \<open>Witness of the amended C3 on the page that has received one item.\<close>

theorem C3_refresh_replaces_session_witness:
  "''s'' \<noteq> [] \<and>
   sessionId (st (refreshSession ''s'' (Response False) (GenData ''n'' ''qr2'') one_item_world)) = ''n'' \<and>
   refreshSession ''s'' (Response True) GenFailed one_item_world = one_item_world"
proof -
  have h: "''s'' \<noteq> []" by simp
  from C3_refresh_replaces_session[OF h, where g = GenFailed and w = one_item_world
      and sid' = "''n''" and qr = "''qr2''"]
  show ?thesis by simp
qed

subsection \<open>C4: periodic re-validation\<close>

text \<open>
  Claim C4. In every run, while the session id is not empty there is exactly one active
  interval, the one of the current run of the refresh effect; its period is
  \<open>30 * 60 * 1000\<close> milliseconds; and a tick of it, once due, calls \<^verbatim>\<open>refreshSession\<close>
  for the current session id and moves the next tick by exactly one period.
\<close>

theorem C4_refresh_interval:
  assumes "w = run es (mount t0)" and "sessionId (st w) \<noteq> []"
  shows "\<exists>i. currentInterval w = Some i \<and> i < length (intervals w) \<and>
             iv_active (intervals w ! i) \<and>
             iv_period (intervals w ! i) = 30 * 60 * 1000 \<and>
             (\<forall>j<length (intervals w). iv_active (intervals w ! j) \<longrightarrow> j = i) \<and>
             (\<forall>v g. handle (IntervalTick i v g) w =
                (if iv_due (intervals w ! i) \<le> now w
                 then refreshSession (sessionId (st w)) v g
                        (w\<lparr>intervals := (intervals w)
                             [i := (intervals w ! i)\<lparr>iv_due := iv_due (intervals w ! i) + 30 * 60 * 1000\<rparr>]\<rparr>)
                 else w))"
proof -
  from assms(1) have "wf w" "synced w" by (simp_all add: wf_run_mount)
  then have iv: "wf_interval w" and rd: "refreshDeps w = sessionId (st w)"
    by (simp_all add: wf_def synced_def)
  with assms(2) obtain i where i: "currentInterval w = Some i" "i < length (intervals w)"
      "iv_active (intervals w ! i)" "iv_period (intervals w ! i) = 1800000"
      "iv_sessionId (intervals w ! i) = sessionId (st w)"
    by (cases "currentInterval w") (auto simp: wf_interval_def)
  from iv i(1) have u: "\<forall>j<length (intervals w). iv_active (intervals w ! j) \<longrightarrow> j = i"
    by (auto simp: wf_interval_def)
  have p: "(30::nat) * 60 * 1000 = 1800000" by simp
  from i have t: "\<forall>v g. handle (IntervalTick i v g) w =
                (if iv_due (intervals w ! i) \<le> now w
                 then refreshSession (sessionId (st w)) v g
                        (w\<lparr>intervals := (intervals w)
                             [i := (intervals w ! i)\<lparr>iv_due := iv_due (intervals w ! i) + 30 * 60 * 1000\<rparr>]\<rparr>)
                 else w)"
    unfolding p by simp
  from i(1-4) u t show ?thesis unfolding p by blast
qed

text \<open>Witness of C4: the interval registered when the first session arrived.\<close>

theorem C4_refresh_interval_witness:
  "sessionId (st connected_world) \<noteq> [] \<and>
   (\<exists>i. currentInterval connected_world = Some i \<and>
        iv_period (intervals connected_world ! i) = 1800000)"
proof -
  have h: "sessionId (st connected_world) \<noteq> []" by (simp add: connected_world_eval)
  from C4_refresh_interval[OF connected_world_def h] obtain i where
    "currentInterval connected_world = Some i"
    "iv_period (intervals connected_world ! i) = 30 * 60 * 1000" by blast
  then have "currentInterval connected_world = Some i \<and>
             iv_period (intervals connected_world ! i) = 1800000" by simp
  with h show ?thesis by blast
qed

subsection \<open>C5: newest first, with ids made by the client\<close>

text \<open>
  Claim C5, as stated, fails for a content event whose content is not a string: the
  handler stores the item, the render of its card throws at line 352
  (\<^verbatim>\<open>item.content.includes\<close> on the number 5), and the page is unmounted: nothing is
  displayed, the stream is closed and the interval cleared. The type of an item in the
  source (lines 13-20) gives \<^verbatim>\<open>content\<close> as a string.
\<close>

theorem C5_counterexample:
  "\<not> is_mounted (page_run
       [NewSessionClick (GenData ''s'' ''qr''),
        StreamMessage 0 (Inr (JObj [(''type'', JStr ''content''), (''contentType'', JStr ''text''),
                                    (''content'', JNum ''5'')])) ''0.a1b2c3d4e7k'']
       (Mounted (mount 0))) \<and>
   displayed (run
       [NewSessionClick (GenData ''s'' ''qr''),
        StreamMessage 0 (Inr (JObj [(''type'', JStr ''content''), (''contentType'', JStr ''text''),
                                    (''content'', JNum ''5'')])) ''0.a1b2c3d4e7k'']
       (mount 0)) = Inl TypeError \<and>
   es_closed (sources (page_world (page_run
       [NewSessionClick (GenData ''s'' ''qr''),
        StreamMessage 0 (Inr (JObj [(''type'', JStr ''content''), (''contentType'', JStr ''text''),
                                    (''content'', JNum ''5'')])) ''0.a1b2c3d4e7k'']
       (Mounted (mount 0)))) ! 0) \<and>
   \<not> iv_active (intervals (page_world (page_run
       [NewSessionClick (GenData ''s'' ''qr''),
        StreamMessage 0 (Inr (JObj [(''type'', JStr ''content''), (''contentType'', JStr ''text''),
                                    (''content'', JNum ''5'')])) ''0.a1b2c3d4e7k'']
       (Mounted (mount 0)))) ! 0)"
  by (simp add: eval_defs renders_def displayed_def unmount_def)

text \<open>
  Claim C5, amended. On every page that is still mounted, when a sequence of content
  events whose content is a string is delivered on an open stream, the page stays
  mounted and the displayed list is the items of these events in reverse order of
  arrival, in front of what was displayed before. The id of each item is cut from the
  random string the client drew for it (\<^verbatim>\<open>substr(2, 9)\<close> of
  \<^verbatim>\<open>Math.random().toString(36)\<close>), whatever the event carries; where the digits of that
  string after its first two characters are base-36 digits, the id is at most nine
  base-36 digits.
\<close>

theorem C5_newest_first:
  assumes "page_run es (Mounted (mount t0)) = Mounted w" and "live h w"
    and "list_all (\<lambda>(d, rnd). field d ''type'' = JStr ''content'' \<and>
                                is_string (field d ''content'')) evs"
  shows "page_run (deliver h evs) (Mounted w) = Mounted (run (deliver h evs) w) \<and>
         displayed (run (deliver h evs) w) =
           Inr (rev (map (\<lambda>(d, rnd). \<lparr>item_id = substr 2 9 rnd, content = field d ''content'',
                                       item_type = field d ''contentType'', timestamp = now w\<rparr>) evs)
                @ receivedContent (st w)) \<and>
         displayed w = Inr (receivedContent (st w)) \<and>
         map item_id (receivedContent (st (run (deliver h evs) w))) =
           rev (map (\<lambda>(d, rnd). substr 2 9 rnd) evs) @ map item_id (receivedContent (st w)) \<and>
         (list_all (\<lambda>(d, rnd). base36 (drop 2 rnd)) evs \<longrightarrow>
            list_all (\<lambda>i. base36 i \<and> length i \<le> 9)
              (rev (map (\<lambda>(d, rnd). substr 2 9 rnd) evs)))"
proof -
  note m = page_run_mount[OF assms(1)]
  from assms(3) have c: "list_all (\<lambda>(d, rnd). field d ''type'' = JStr ''content'') evs"
    by (auto simp: list_all_iff)
  have p: "page_run (deliver h evs) (Mounted w) = Mounted (run (deliver h evs) w)"
    by (rule deliver_page_run[OF m(3) assms(2) m(2) assms(3)])
  from page_run_mounted[OF p m(2)] have r: "renders (run (deliver h evs) w)" by blast
  have 1: "receivedContent (st (run (deliver h evs) w)) =
           rev (map (\<lambda>(d, rnd). \<lparr>item_id = substr 2 9 rnd, content = field d ''content'',
                                  item_type = field d ''contentType'', timestamp = now w\<rparr>) evs)
           @ receivedContent (st w)"
    by (rule deliver_content[OF m(3) assms(2) c])
  from displayed_renders[OF r] 1 have d: "displayed (run (deliver h evs) w) =
           Inr (rev (map (\<lambda>(d, rnd). \<lparr>item_id = substr 2 9 rnd, content = field d ''content'',
                                       item_type = field d ''contentType'', timestamp = now w\<rparr>) evs)
                @ receivedContent (st w))"
    by simp
  have "map item_id (map (\<lambda>(d, rnd). \<lparr>item_id = substr 2 9 rnd, content = field d ''content'',
                                  item_type = field d ''contentType'', timestamp = now w\<rparr>) evs)
        = map (\<lambda>(d, rnd). substr 2 9 rnd) evs"
    by (induction evs) auto
  with 1 have 2: "map item_id (receivedContent (st (run (deliver h evs) w))) =
           rev (map (\<lambda>(d, rnd). substr 2 9 rnd) evs) @ map item_id (receivedContent (st w))"
    by (simp add: rev_map)
  have 3: "list_all (\<lambda>i. base36 i \<and> length i \<le> 9)
              (rev (map (\<lambda>(d, rnd). substr 2 9 rnd) evs))"
    if "list_all (\<lambda>(d, rnd). base36 (drop 2 rnd)) evs"
    using that by (induction evs) (auto simp: substr_base36)
  from p d displayed_renders[OF m(2)] 2 3 show ?thesis by blast
qed

text \<open>
  Witness of the amended C5: two events that carry an \<^verbatim>\<open>id\<close> of their own, which the
  page ignores.
\<close>

theorem C5_newest_first_witness:
  "page_run [NewSessionClick (GenData ''s'' ''qr'')] (Mounted (mount 0)) = Mounted connected_world \<and>
   live 0 connected_world \<and>
   list_all (\<lambda>(d, rnd). field d ''type'' = JStr ''content'' \<and> is_string (field d ''content''))
     [(JObj [(''type'', JStr ''content''), (''contentType'', JStr ''text''),
             (''content'', JStr ''first''), (''id'', JStr ''srv-1'')], ''0.a1b2c3d4e7k''),
      (JObj [(''type'', JStr ''content''), (''contentType'', JStr ''link''),
             (''content'', JStr ''example.com''), (''id'', JStr ''srv-2'')], ''0.f5g6h7i8j2m'')] \<and>
   list_all (\<lambda>(d, rnd). base36 (drop 2 rnd))
     [(JObj [(''type'', JStr ''content''), (''contentType'', JStr ''text''),
             (''content'', JStr ''first''), (''id'', JStr ''srv-1'')], ''0.a1b2c3d4e7k''),
      (JObj [(''type'', JStr ''content''), (''contentType'', JStr ''link''),
             (''content'', JStr ''example.com''), (''id'', JStr ''srv-2'')], ''0.f5g6h7i8j2m'')] \<and>
   displayed (run (deliver 0
     [(JObj [(''type'', JStr ''content''), (''contentType'', JStr ''text''),
             (''content'', JStr ''first''), (''id'', JStr ''srv-1'')], ''0.a1b2c3d4e7k''),
      (JObj [(''type'', JStr ''content''), (''contentType'', JStr ''link''),
             (''content'', JStr ''example.com''), (''id'', JStr ''srv-2'')], ''0.f5g6h7i8j2m'')])
     connected_world) =
   Inr [\<lparr>item_id = ''f5g6h7i8j'', content = JStr ''example.com'', item_type = JStr ''link'',
         timestamp = 0\<rparr>,
        \<lparr>item_id = ''a1b2c3d4e'', content = JStr ''first'', item_type = JStr ''text'',
         timestamp = 0\<rparr>] \<and>
   list_all (\<lambda>i. base36 i \<and> length i \<le> 9) [''f5g6h7i8j'', ''a1b2c3d4e'']"
proof -
  let ?w = "connected_world"
  let ?evs = "[(JObj [(''type'', JStr ''content''), (''contentType'', JStr ''text''),
             (''content'', JStr ''first''), (''id'', JStr ''srv-1'')], ''0.a1b2c3d4e7k''),
      (JObj [(''type'', JStr ''content''), (''contentType'', JStr ''link''),
             (''content'', JStr ''example.com''), (''id'', JStr ''srv-2'')], ''0.f5g6h7i8j2m'')]"
  have l: "live 0 ?w" by (simp add: live_def connected_world_eval)
  have c: "list_all (\<lambda>(d, rnd). field d ''type'' = JStr ''content'' \<and>
                                 is_string (field d ''content'')) ?evs" by simp
  have b: "list_all (\<lambda>(d, rnd). base36 (drop 2 rnd)) ?evs" by (simp add: base36_def)
  have d: "receivedContent (st ?w) = []" "now ?w = 0" by (simp_all add: connected_world_eval)
  have s: "substr 2 9 ''0.a1b2c3d4e7k'' = ''a1b2c3d4e''" "substr 2 9 ''0.f5g6h7i8j2m'' = ''f5g6h7i8j''"
    by (simp_all add: substr_def)
  from C5_newest_first[OF connected_page l c] connected_page b l c d s show ?thesis by simp
qed

subsection \<open>C6: one item per content event, copied verbatim\<close>

text \<open>
  Claim C6, as stated, fails twice. In the position of the new item: it is not appended,
  that is, it does not come last; on the page that already shows one item, the item of
  the next content event is not at the end of the list. And for a content event that
  carries no string as its content (here: no content at all) the render of the new card
  throws at line 352 and the page, with its received list, is unmounted.
\<close>

theorem C6_counterexample:
  "page_step (StreamMessage 0
       (Inr (JObj [(''type'', JStr ''content''), (''contentType'', JStr ''link''),
                   (''content'', JStr ''example.com'')])) ''0.f5g6h7i8j2m'') (Mounted one_item_world) =
     Mounted (step (StreamMessage 0
       (Inr (JObj [(''type'', JStr ''content''), (''contentType'', JStr ''link''),
                   (''content'', JStr ''example.com'')])) ''0.f5g6h7i8j2m'') one_item_world) \<and>
   receivedContent (st (step (StreamMessage 0
       (Inr (JObj [(''type'', JStr ''content''), (''contentType'', JStr ''link''),
                   (''content'', JStr ''example.com'')])) ''0.f5g6h7i8j2m'') one_item_world)) \<noteq>
     receivedContent (st one_item_world) @
       [\<lparr>item_id = ''f5g6h7i8j'', content = JStr ''example.com'', item_type = JStr ''link'',
         timestamp = now one_item_world\<rparr>] \<and>
   \<not> is_mounted (page_step (StreamMessage 0
       (Inr (JObj [(''type'', JStr ''content''), (''contentType'', JStr ''link'')]))
       ''0.f5g6h7i8j2m'') (Mounted one_item_world))"
  by (simp add: one_item_world_def eval_defs substr_def renders_def displayed_def)

text \<open>
  Claim C6, amended. For every event whose \<^verbatim>\<open>type\<close> is \<^verbatim>\<open>"content"\<close> and whose
  content is a string, delivered on an open stream of a mounted page, the handler throws
  nothing, the page stays mounted and the received list grows by exactly one item, placed
  at its front, whose \<^verbatim>\<open>content\<close> is the \<^verbatim>\<open>content\<close> of the event and whose \<^verbatim>\<open>type\<close>
  is its \<^verbatim>\<open>contentType\<close> (\<^verbatim>\<open>"text"\<close> or \<^verbatim>\<open>"link"\<close>, or whatever else it is), both
  unchanged.
\<close>

theorem C6_content_item_prepended:
  assumes "page_run es (Mounted (mount t0)) = Mounted w" and "live h w"
    and "field data ''type'' = JStr ''content''" and "is_string (field data ''content'')"
  shows "onmessage (Inr data) rnd w = Inr (handle (StreamMessage h (Inr data) rnd) w) \<and>
         page_step (StreamMessage h (Inr data) rnd) (Mounted w) =
           Mounted (step (StreamMessage h (Inr data) rnd) w) \<and>
         receivedContent (st (step (StreamMessage h (Inr data) rnd) w)) =
           \<lparr>item_id = substr 2 9 rnd, content = field data ''content'',
             item_type = field data ''contentType'', timestamp = now w\<rparr>
           # receivedContent (st w) \<and>
         length (receivedContent (st (step (StreamMessage h (Inr data) rnd) w))) =
           Suc (length (receivedContent (st w)))"
proof -
  note m = page_run_mount[OF assms(1)]
  from assms(3) have "data \<noteq> Null" "data \<noteq> Undefined" by auto
  with assms have 1: "onmessage (Inr data) rnd w =
      Inr (show_toast \<lparr>title = ''Content Received!'',
                        description = NewReceived (field data ''contentType''),
                        destructive = False\<rparr>
             (setReceivedContent
                (\<lambda>prev. \<lparr>item_id = substr 2 9 rnd, content = field data ''content'',
                           item_type = field data ''contentType'', timestamp = now w\<rparr> # prev) w))"
    by (simp add: onmessage_def)
  with assms(2) have 2: "handle (StreamMessage h (Inr data) rnd) w =
      show_toast \<lparr>title = ''Content Received!'',
                   description = NewReceived (field data ''contentType''),
                   destructive = False\<rparr>
        (setReceivedContent
           (\<lambda>prev. \<lparr>item_id = substr 2 9 rnd, content = field data ''content'',
                      item_type = field data ''contentType'', timestamp = now w\<rparr> # prev) w)"
    by simp
  have 3: "st (step (StreamMessage h (Inr data) rnd) w) =
           st (handle (StreamMessage h (Inr data) rnd) w)"
    by (simp only: step_def render_def rerun_refresh_frame rerun_stream_frame)
  have 4: "receivedContent (st (step (StreamMessage h (Inr data) rnd) w)) =
      \<lparr>item_id = substr 2 9 rnd, content = field data ''content'',
        item_type = field data ''contentType'', timestamp = now w\<rparr> # receivedContent (st w)"
    unfolding 3 2 by (simp add: setter_defs)
  have 5: "onmessage (Inr data) rnd w = Inr (handle (StreamMessage h (Inr data) rnd) w)"
    unfolding 2 by (rule 1)
  note 6 = content_page_step(1)[OF m(3) assms(2) m(2) assms(3,4), of rnd]
  from 4 5 6 show ?thesis by simp
qed

text \<open>Witness of the amended C6: a link arrives on the page that shows one text item.\<close>

theorem C6_content_item_prepended_witness:
  "page_run [NewSessionClick (GenData ''s'' ''qr''),
             StreamMessage 0 (Inr (JObj [(''type'', JStr ''content''), (''contentType'', JStr ''text''),
                                         (''content'', JStr ''first'')])) ''0.a1b2c3d4e7k'']
     (Mounted (mount 0)) = Mounted one_item_world \<and>
   live 0 one_item_world \<and>
   field (JObj [(''type'', JStr ''content''), (''contentType'', JStr ''link''),
                (''content'', JStr ''example.com'')]) ''type'' = JStr ''content'' \<and>
   is_string (field (JObj [(''type'', JStr ''content''), (''contentType'', JStr ''link''),
                (''content'', JStr ''example.com'')]) ''content'') \<and>
   receivedContent (st (step (StreamMessage 0
       (Inr (JObj [(''type'', JStr ''content''), (''contentType'', JStr ''link''),
                   (''content'', JStr ''example.com'')])) ''0.f5g6h7i8j2m'') one_item_world)) =
     [\<lparr>item_id = ''f5g6h7i8j'', content = JStr ''example.com'', item_type = JStr ''link'',
       timestamp = 0\<rparr>,
      \<lparr>item_id = ''a1b2c3d4e'', content = JStr ''first'', item_type = JStr ''text'',
       timestamp = 0\<rparr>]"
proof -
  let ?d = "JObj [(''type'', JStr ''content''), (''contentType'', JStr ''link''),
                (''content'', JStr ''example.com'')]"
  have h: "field ?d ''type'' = JStr ''content''" and i: "is_string (field ?d ''content'')"
    by simp_all
  have l: "live 0 one_item_world" and n: "now one_item_world = 0"
    by (simp_all add: one_item_world_def eval_defs)
  from C6_content_item_prepended[OF one_item_page l h i, of "''0.f5g6h7i8j2m''"] one_item_page h i l n
  show ?thesis by (simp add: one_item_world_content substr_def)
qed

subsection \<open>C7: heartbeats change nothing\<close>

text \<open>
  Claim C7. For every event whose \<^verbatim>\<open>type\<close> is \<^verbatim>\<open>"heartbeat"\<close> the handler only
  writes a line to the console. The whole component state (received list, session id,
  retry counter and the other three cells) after the step is the state before it, in
  any world; and in every run the step changes nothing but the console output: no
  stream, timer, closure or interval is touched.
\<close>

theorem C7_heartbeat_frame:
  assumes "field data ''type'' = JStr ''heartbeat''"
  shows "onmessage (Inr data) rnd w = Inr (console_log (Msg ''Heartbeat received'') w) \<and>
         st (step (StreamMessage h (Inr data) rnd) w) = st w \<and>
         step (StreamMessage h (Inr data) rnd) (run es (mount t0)) =
           (if live h (run es (mount t0))
            then console_log (Msg ''Heartbeat received'') (run es (mount t0))
            else run es (mount t0))"
proof -
  from assms have nn: "data \<noteq> Null" "data \<noteq> Undefined" by auto
  with assms have 1: "onmessage (Inr data) rnd w = Inr (console_log (Msg ''Heartbeat received'') w)" for w
    by (simp add: onmessage_def)
  have 2: "st (step (StreamMessage h (Inr data) rnd) w) = st w"
    by (simp add: step_def render_def rerun_refresh_frame rerun_stream_frame 1 setter_defs)
  let ?w = "run es (mount t0)"
  have "synced ?w" by (rule wf_run_mount)
  then have "synced (console_log (Msg ''Heartbeat received'') ?w)"
    by (simp add: synced_def setter_defs)
  with \<open>synced ?w\<close> have 3: "step (StreamMessage h (Inr data) rnd) ?w =
           (if live h ?w then console_log (Msg ''Heartbeat received'') ?w else ?w)"
    by (simp add: step_def 1 render_synced_id)
  from 1 2 3 show ?thesis by simp
qed

text \<open>Witness of C7: a heartbeat on the first stream of the connected page.\<close>

theorem C7_heartbeat_frame_witness:
  "field (JObj [(''type'', JStr ''heartbeat'')]) ''type'' = JStr ''heartbeat'' \<and>
   st (step (StreamMessage 0 (Inr (JObj [(''type'', JStr ''heartbeat'')])) ''0.k3j9x0q1zp'')
         connected_world) =
     \<lparr>sessionId = ''s'', qrCodeUrl = ''qr'', receivedContent = [],
      isConnected = False, isGenerating = False, connectionRetries = 0\<rparr>"
proof -
  have h: "field (JObj [(''type'', JStr ''heartbeat'')]) ''type'' = JStr ''heartbeat''" by simp
  from C7_heartbeat_frame[OF h, of "''0.k3j9x0q1zp''" _ 0]
  have "st (step (StreamMessage 0 (Inr (JObj [(''type'', JStr ''heartbeat'')])) ''0.k3j9x0q1zp'')
         connected_world) = st connected_world" by blast
  with h show ?thesis by (simp add: connected_world_eval)
qed

subsection \<open>C8: opening a link\<close>

text \<open>
  Claim C8. For every string \<open>u\<close>, \<^verbatim>\<open>openLink\<close> makes one call of \<^verbatim>\<open>window.open\<close>
  with target \<^verbatim>\<open>_blank\<close>: on \<open>u\<close> itself when \<open>u\<close> starts with \<^verbatim>\<open>http\<close>, and on
  \<^verbatim>\<open>https://\<close> followed by \<open>u\<close> otherwise; the component state is untouched. The Open
  button of an item of type link whose content is the string \<open>u\<close> calls \<^verbatim>\<open>openLink\<close>
  on \<open>u\<close>.
\<close>

theorem C8_openLink:
  "windows (openLink u w) =
     windows w @ [(if prefix ''http'' u then u else ''https://'' @ u, ''_blank'')] \<and>
   st (openLink u w) = st w \<and>
   openButton \<lparr>item_id = i, content = JStr u, item_type = JStr ''link'', timestamp = t\<rparr> w =
     Some (Inr (openLink u w))"
  by (simp add: openLink_def openButton_def setter_defs Let_def)

subsection \<open>C9: a new session starts from scratch\<close>

text \<open>
  Claim C9. A call of \<^verbatim>\<open>generateSession\<close> whose request succeeds leaves the state
  with the session id and QR payload of the response, an empty received list, the retry
  counter 0 and \<^verbatim>\<open>isGenerating\<close> false; only \<^verbatim>\<open>isConnected\<close> is kept, and no toast
  is shown.
\<close>

theorem C9_generateSession_resets:
  "st (generateSession (GenData sid qr) w) =
     \<lparr>sessionId = sid, qrCodeUrl = qr, receivedContent = [],
      isConnected = isConnected (st w), isGenerating = False, connectionRetries = 0\<rparr> \<and>
   toasts (generateSession (GenData sid qr) w) = toasts w"
  by (simp add: generateSession_def setter_defs Let_def)

subsection \<open>C10: clearing the received list\<close>

text \<open>
  Claim C10. \<^verbatim>\<open>clearReceivedContent\<close> empties the received list and leaves every
  other cell of the state as it was: session id, QR payload, connection flag, retry
  counter and \<^verbatim>\<open>isGenerating\<close>. No stream, timer, closure or interval is touched
  (it shows the toast "Cleared"), and the render that follows does not change the state.
\<close>

theorem C10_clear_frame:
  "st (clearReceivedContent w) = (st w)\<lparr>receivedContent := []\<rparr> \<and>
   sessionId (st (clearReceivedContent w)) = sessionId (st w) \<and>
   qrCodeUrl (st (clearReceivedContent w)) = qrCodeUrl (st w) \<and>
   isConnected (st (clearReceivedContent w)) = isConnected (st w) \<and>
   connectionRetries (st (clearReceivedContent w)) = connectionRetries (st w) \<and>
   isGenerating (st (clearReceivedContent w)) = isGenerating (st w) \<and>
   same_env w (clearReceivedContent w) \<and>
   st (step ClearClick w) = (st w)\<lparr>receivedContent := []\<rparr>"
  by (simp add: clearReceivedContent_def setter_defs same_env_def step_def render_def
      rerun_refresh_frame rerun_stream_frame)

end
